theory Spec2Isabelle
  imports Complex_Main
begin

section \<open>Python strings\<close>

text \<open>
  A Python \<open>str\<close> is a sequence of Unicode code points, so it is modelled as a list of
  natural numbers. A value that may be \<open>None\<close> is an \<open>option\<close>. The function
  \<open>ascii\<close> writes an ASCII literal as its code points.
\<close>

type_synonym ustr = "nat list"

definition ascii :: "string \<Rightarrow> ustr" where
  "ascii s = map of_char s"

text \<open>
  \<open>str.isspace\<close> for one code point: the white space of CPython's Unicode database
  (U+0009..U+000D, U+001C..U+0020, U+0085, U+00A0, U+1680, U+2000..U+200A, U+2028,
  U+2029, U+202F, U+205F, U+3000).
\<close>

definition isspace :: "nat \<Rightarrow> bool" where
  "isspace c = ((9 \<le> c \<and> c \<le> 13) \<or> (28 \<le> c \<and> c \<le> 32) \<or> c = 133 \<or> c = 160
     \<or> c = 5760 \<or> (8192 \<le> c \<and> c \<le> 8202) \<or> c = 8232 \<or> c = 8233 \<or> c = 8239
     \<or> c = 8287 \<or> c = 12288)"

text \<open>\<open>s.strip()\<close>: white space removed at both ends.\<close>

definition strip :: "ustr \<Rightarrow> ustr" where
  "strip s = rev (dropWhile isspace (rev (dropWhile isspace s)))"

text \<open>
  \<open>s.lower()\<close>, with the case mapping of the Unicode database of CPython 3.11
  (Unicode 14). The table \<open>lower_blocks\<close> gives the simple lower-case mapping of the
  code points from U+0080 on: a block is its first and its last code point, the step
  between the code points it maps, and the image of the first; the images count up with
  the code points.
\<close>

definition lower_blocks :: "(nat \<times> nat \<times> nat \<times> nat) list" where
  "lower_blocks =
    [(192, 214, 1, 224), (216, 222, 1, 248), (256, 302, 2, 257), (306, 310, 2, 307),
     (313, 327, 2, 314), (330, 374, 2, 331), (376, 376, 1, 255), (377, 381, 2, 378),
     (385, 385, 1, 595), (386, 388, 2, 387), (390, 390, 1, 596), (391, 391, 1, 392),
     (393, 394, 1, 598), (395, 395, 1, 396), (398, 398, 1, 477), (399, 399, 1, 601),
     (400, 400, 1, 603), (401, 401, 1, 402), (403, 403, 1, 608), (404, 404, 1, 611),
     (406, 406, 1, 617), (407, 407, 1, 616), (408, 408, 1, 409), (412, 412, 1, 623),
     (413, 413, 1, 626), (415, 415, 1, 629), (416, 420, 2, 417), (422, 422, 1, 640),
     (423, 423, 1, 424), (425, 425, 1, 643), (428, 428, 1, 429), (430, 430, 1, 648),
     (431, 431, 1, 432), (433, 434, 1, 650), (435, 437, 2, 436), (439, 439, 1, 658),
     (440, 440, 1, 441), (444, 444, 1, 445), (452, 452, 1, 454), (453, 453, 1, 454),
     (455, 455, 1, 457), (456, 456, 1, 457), (458, 458, 1, 460), (459, 475, 2, 460),
     (478, 494, 2, 479), (497, 497, 1, 499), (498, 500, 2, 499), (502, 502, 1, 405),
     (503, 503, 1, 447), (504, 542, 2, 505), (544, 544, 1, 414), (546, 562, 2, 547),
     (570, 570, 1, 11365), (571, 571, 1, 572), (573, 573, 1, 410), (574, 574, 1, 11366),
     (577, 577, 1, 578), (579, 579, 1, 384), (580, 580, 1, 649), (581, 581, 1, 652),
     (582, 590, 2, 583), (880, 882, 2, 881), (886, 886, 1, 887), (895, 895, 1, 1011),
     (902, 902, 1, 940), (904, 906, 1, 941), (908, 908, 1, 972), (910, 911, 1, 973),
     (913, 929, 1, 945), (931, 939, 1, 963), (975, 975, 1, 983), (984, 1006, 2, 985),
     (1012, 1012, 1, 952), (1015, 1015, 1, 1016), (1017, 1017, 1, 1010),
     (1018, 1018, 1, 1019), (1021, 1023, 1, 891), (1024, 1039, 1, 1104),
     (1040, 1071, 1, 1072), (1120, 1152, 2, 1121), (1162, 1214, 2, 1163),
     (1216, 1216, 1, 1231), (1217, 1229, 2, 1218), (1232, 1326, 2, 1233),
     (1329, 1366, 1, 1377), (4256, 4293, 1, 11520), (4295, 4295, 1, 11559),
     (4301, 4301, 1, 11565), (5024, 5103, 1, 43888), (5104, 5109, 1, 5112),
     (7312, 7354, 1, 4304), (7357, 7359, 1, 4349), (7680, 7828, 2, 7681),
     (7838, 7838, 1, 223), (7840, 7934, 2, 7841), (7944, 7951, 1, 7936),
     (7960, 7965, 1, 7952), (7976, 7983, 1, 7968), (7992, 7999, 1, 7984),
     (8008, 8013, 1, 8000), (8025, 8031, 2, 8017), (8040, 8047, 1, 8032),
     (8072, 8079, 1, 8064), (8088, 8095, 1, 8080), (8104, 8111, 1, 8096),
     (8120, 8121, 1, 8112), (8122, 8123, 1, 8048), (8124, 8124, 1, 8115),
     (8136, 8139, 1, 8050), (8140, 8140, 1, 8131), (8152, 8153, 1, 8144),
     (8154, 8155, 1, 8054), (8168, 8169, 1, 8160), (8170, 8171, 1, 8058),
     (8172, 8172, 1, 8165), (8184, 8185, 1, 8056), (8186, 8187, 1, 8060),
     (8188, 8188, 1, 8179), (8486, 8486, 1, 969), (8490, 8490, 1, 107), (8491, 8491, 1, 229),
     (8498, 8498, 1, 8526), (8544, 8559, 1, 8560), (8579, 8579, 1, 8580),
     (9398, 9423, 1, 9424), (11264, 11311, 1, 11312), (11360, 11360, 1, 11361),
     (11362, 11362, 1, 619), (11363, 11363, 1, 7549), (11364, 11364, 1, 637),
     (11367, 11371, 2, 11368), (11373, 11373, 1, 593), (11374, 11374, 1, 625),
     (11375, 11375, 1, 592), (11376, 11376, 1, 594), (11378, 11378, 1, 11379),
     (11381, 11381, 1, 11382), (11390, 11391, 1, 575), (11392, 11490, 2, 11393),
     (11499, 11501, 2, 11500), (11506, 11506, 1, 11507), (42560, 42604, 2, 42561),
     (42624, 42650, 2, 42625), (42786, 42798, 2, 42787), (42802, 42862, 2, 42803),
     (42873, 42875, 2, 42874), (42877, 42877, 1, 7545), (42878, 42886, 2, 42879),
     (42891, 42891, 1, 42892), (42893, 42893, 1, 613), (42896, 42898, 2, 42897),
     (42902, 42920, 2, 42903), (42922, 42922, 1, 614), (42923, 42923, 1, 604),
     (42924, 42924, 1, 609), (42925, 42925, 1, 620), (42926, 42926, 1, 618),
     (42928, 42928, 1, 670), (42929, 42929, 1, 647), (42930, 42930, 1, 669),
     (42931, 42931, 1, 43859), (42932, 42946, 2, 42933), (42948, 42948, 1, 42900),
     (42949, 42949, 1, 642), (42950, 42950, 1, 7566), (42951, 42953, 2, 42952),
     (42960, 42960, 1, 42961), (42966, 42968, 2, 42967), (42997, 42997, 1, 42998),
     (65313, 65338, 1, 65345), (66560, 66599, 1, 66600), (66736, 66771, 1, 66776),
     (66928, 66928, 2, 66967), (66929, 66938, 1, 66968), (66940, 66954, 1, 66979),
     (66956, 66962, 1, 66995), (66964, 66965, 1, 67003), (68736, 68786, 1, 68800),
     (71840, 71871, 1, 71872), (93760, 93791, 1, 93792), (125184, 125217, 1, 125218)]"

definition to_lower :: "nat \<Rightarrow> nat" where
  "to_lower c =
     (if 65 \<le> c \<and> c \<le> 90 then c + 32
      else if c < 128 then c
      else (case find (\<lambda>(a, b, s, t). a \<le> c \<and> c \<le> b \<and> (c - a) mod s = 0) lower_blocks of
              None \<Rightarrow> c
            | Some (a, b, s, t) \<Rightarrow> t + (c - a)))"

text \<open>
  The capital sigma U+03A3 becomes the final sigma U+03C2 at the end of a word and the
  small sigma U+03C3 elsewhere. The rule skips case-ignorable code points on both sides
  and then asks whether the next code point is cased. The tables are the ranges of the
  case-ignorable code points, and of the cased ones among the others.
\<close>

definition case_ignorable_ranges :: "(nat \<times> nat) list" where
  "case_ignorable_ranges =
    [(39, 39), (46, 46), (58, 58), (94, 94), (96, 96), (168, 168), (173, 173), (175, 175),
     (180, 180), (183, 184), (688, 879), (884, 885), (890, 890), (900, 901), (903, 903),
     (1155, 1161), (1369, 1369), (1375, 1375), (1425, 1469), (1471, 1471), (1473, 1474),
     (1476, 1477), (1479, 1479), (1524, 1524), (1536, 1541), (1552, 1562), (1564, 1564),
     (1600, 1600), (1611, 1631), (1648, 1648), (1750, 1757), (1759, 1768), (1770, 1773),
     (1807, 1807), (1809, 1809), (1840, 1866), (1958, 1968), (2027, 2037), (2042, 2042),
     (2045, 2045), (2070, 2093), (2137, 2139), (2184, 2184), (2192, 2193), (2200, 2207),
     (2249, 2306), (2362, 2362), (2364, 2364), (2369, 2376), (2381, 2381), (2385, 2391),
     (2402, 2403), (2417, 2417), (2433, 2433), (2492, 2492), (2497, 2500), (2509, 2509),
     (2530, 2531), (2558, 2558), (2561, 2562), (2620, 2620), (2625, 2626), (2631, 2632),
     (2635, 2637), (2641, 2641), (2672, 2673), (2677, 2677), (2689, 2690), (2748, 2748),
     (2753, 2757), (2759, 2760), (2765, 2765), (2786, 2787), (2810, 2815), (2817, 2817),
     (2876, 2876), (2879, 2879), (2881, 2884), (2893, 2893), (2901, 2902), (2914, 2915),
     (2946, 2946), (3008, 3008), (3021, 3021), (3072, 3072), (3076, 3076), (3132, 3132),
     (3134, 3136), (3142, 3144), (3146, 3149), (3157, 3158), (3170, 3171), (3201, 3201),
     (3260, 3260), (3263, 3263), (3270, 3270), (3276, 3277), (3298, 3299), (3328, 3329),
     (3387, 3388), (3393, 3396), (3405, 3405), (3426, 3427), (3457, 3457), (3530, 3530),
     (3538, 3540), (3542, 3542), (3633, 3633), (3636, 3642), (3654, 3662), (3761, 3761),
     (3764, 3772), (3782, 3782), (3784, 3789), (3864, 3865), (3893, 3893), (3895, 3895),
     (3897, 3897), (3953, 3966), (3968, 3972), (3974, 3975), (3981, 3991), (3993, 4028),
     (4038, 4038), (4141, 4144), (4146, 4151), (4153, 4154), (4157, 4158), (4184, 4185),
     (4190, 4192), (4209, 4212), (4226, 4226), (4229, 4230), (4237, 4237), (4253, 4253),
     (4348, 4348), (4957, 4959), (5906, 5908), (5938, 5939), (5970, 5971), (6002, 6003),
     (6068, 6069), (6071, 6077), (6086, 6086), (6089, 6099), (6103, 6103), (6109, 6109),
     (6155, 6159), (6211, 6211), (6277, 6278), (6313, 6313), (6432, 6434), (6439, 6440),
     (6450, 6450), (6457, 6459), (6679, 6680), (6683, 6683), (6742, 6742), (6744, 6750),
     (6752, 6752), (6754, 6754), (6757, 6764), (6771, 6780), (6783, 6783), (6823, 6823),
     (6832, 6862), (6912, 6915), (6964, 6964), (6966, 6970), (6972, 6972), (6978, 6978),
     (7019, 7027), (7040, 7041), (7074, 7077), (7080, 7081), (7083, 7085), (7142, 7142),
     (7144, 7145), (7149, 7149), (7151, 7153), (7212, 7219), (7222, 7223), (7288, 7293),
     (7376, 7378), (7380, 7392), (7394, 7400), (7405, 7405), (7412, 7412), (7416, 7417),
     (7468, 7530), (7544, 7544), (7579, 7679), (8125, 8125), (8127, 8129), (8141, 8143),
     (8157, 8159), (8173, 8175), (8189, 8190), (8203, 8207), (8216, 8217), (8228, 8228),
     (8231, 8231), (8234, 8238), (8288, 8292), (8294, 8303), (8305, 8305), (8319, 8319),
     (8336, 8348), (8400, 8432), (11388, 11389), (11503, 11505), (11631, 11631),
     (11647, 11647), (11744, 11775), (11823, 11823), (12293, 12293), (12330, 12333),
     (12337, 12341), (12347, 12347), (12441, 12446), (12540, 12542), (40981, 40981),
     (42232, 42237), (42508, 42508), (42607, 42610), (42612, 42621), (42623, 42623),
     (42652, 42655), (42736, 42737), (42752, 42785), (42864, 42864), (42888, 42890),
     (42994, 42996), (43000, 43001), (43010, 43010), (43014, 43014), (43019, 43019),
     (43045, 43046), (43052, 43052), (43204, 43205), (43232, 43249), (43263, 43263),
     (43302, 43309), (43335, 43345), (43392, 43394), (43443, 43443), (43446, 43449),
     (43452, 43453), (43471, 43471), (43493, 43494), (43561, 43566), (43569, 43570),
     (43573, 43574), (43587, 43587), (43596, 43596), (43632, 43632), (43644, 43644),
     (43696, 43696), (43698, 43700), (43703, 43704), (43710, 43711), (43713, 43713),
     (43741, 43741), (43756, 43757), (43763, 43764), (43766, 43766), (43867, 43871),
     (43881, 43883), (44005, 44005), (44008, 44008), (44013, 44013), (64286, 64286),
     (64434, 64450), (65024, 65039), (65043, 65043), (65056, 65071), (65106, 65106),
     (65109, 65109), (65279, 65279), (65287, 65287), (65294, 65294), (65306, 65306),
     (65342, 65342), (65344, 65344), (65392, 65392), (65438, 65439), (65507, 65507),
     (65529, 65531), (66045, 66045), (66272, 66272), (66422, 66426), (67456, 67461),
     (67463, 67504), (67506, 67514), (68097, 68099), (68101, 68102), (68108, 68111),
     (68152, 68154), (68159, 68159), (68325, 68326), (68900, 68903), (69291, 69292),
     (69446, 69456), (69506, 69509), (69633, 69633), (69688, 69702), (69744, 69744),
     (69747, 69748), (69759, 69761), (69811, 69814), (69817, 69818), (69821, 69821),
     (69826, 69826), (69837, 69837), (69888, 69890), (69927, 69931), (69933, 69940),
     (70003, 70003), (70016, 70017), (70070, 70078), (70089, 70092), (70095, 70095),
     (70191, 70193), (70196, 70196), (70198, 70199), (70206, 70206), (70367, 70367),
     (70371, 70378), (70400, 70401), (70459, 70460), (70464, 70464), (70502, 70508),
     (70512, 70516), (70712, 70719), (70722, 70724), (70726, 70726), (70750, 70750),
     (70835, 70840), (70842, 70842), (70847, 70848), (70850, 70851), (71090, 71093),
     (71100, 71101), (71103, 71104), (71132, 71133), (71219, 71226), (71229, 71229),
     (71231, 71232), (71339, 71339), (71341, 71341), (71344, 71349), (71351, 71351),
     (71453, 71455), (71458, 71461), (71463, 71467), (71727, 71735), (71737, 71738),
     (71995, 71996), (71998, 71998), (72003, 72003), (72148, 72151), (72154, 72155),
     (72160, 72160), (72193, 72202), (72243, 72248), (72251, 72254), (72263, 72263),
     (72273, 72278), (72281, 72283), (72330, 72342), (72344, 72345), (72752, 72758),
     (72760, 72765), (72767, 72767), (72850, 72871), (72874, 72880), (72882, 72883),
     (72885, 72886), (73009, 73014), (73018, 73018), (73020, 73021), (73023, 73029),
     (73031, 73031), (73104, 73105), (73109, 73109), (73111, 73111), (73459, 73460),
     (78896, 78904), (92912, 92916), (92976, 92982), (92992, 92995), (94031, 94031),
     (94095, 94111), (94176, 94177), (94179, 94180), (110576, 110579), (110581, 110587),
     (110589, 110590), (113821, 113822), (113824, 113827), (118528, 118573),
     (118576, 118598), (119143, 119145), (119155, 119170), (119173, 119179),
     (119210, 119213), (119362, 119364), (121344, 121398), (121403, 121452),
     (121461, 121461), (121476, 121476), (121499, 121503), (121505, 121519),
     (122880, 122886), (122888, 122904), (122907, 122913), (122915, 122916),
     (122918, 122922), (123184, 123197), (123566, 123566), (123628, 123631),
     (125136, 125142), (125252, 125259), (127995, 127999), (917505, 917505),
     (917536, 917631), (917760, 917999)]"

definition cased_ranges :: "(nat \<times> nat) list" where
  "cased_ranges =
    [(65, 90), (97, 122), (170, 170), (181, 181), (186, 186), (192, 214), (216, 246),
     (248, 442), (444, 447), (452, 659), (661, 687), (880, 883), (886, 887), (891, 893),
     (895, 895), (902, 902), (904, 906), (908, 908), (910, 929), (931, 1013), (1015, 1153),
     (1162, 1327), (1329, 1366), (1376, 1416), (4256, 4293), (4295, 4295), (4301, 4301),
     (4304, 4346), (4349, 4351), (5024, 5109), (5112, 5117), (7296, 7304), (7312, 7354),
     (7357, 7359), (7424, 7467), (7531, 7543), (7545, 7578), (7680, 7957), (7960, 7965),
     (7968, 8005), (8008, 8013), (8016, 8023), (8025, 8025), (8027, 8027), (8029, 8029),
     (8031, 8061), (8064, 8116), (8118, 8124), (8126, 8126), (8130, 8132), (8134, 8140),
     (8144, 8147), (8150, 8155), (8160, 8172), (8178, 8180), (8182, 8188), (8450, 8450),
     (8455, 8455), (8458, 8467), (8469, 8469), (8473, 8477), (8484, 8484), (8486, 8486),
     (8488, 8488), (8490, 8493), (8495, 8500), (8505, 8505), (8508, 8511), (8517, 8521),
     (8526, 8526), (8544, 8575), (8579, 8580), (9398, 9449), (11264, 11387), (11390, 11492),
     (11499, 11502), (11506, 11507), (11520, 11557), (11559, 11559), (11565, 11565),
     (42560, 42605), (42624, 42651), (42786, 42863), (42865, 42887), (42891, 42894),
     (42896, 42954), (42960, 42961), (42963, 42963), (42965, 42969), (42997, 42998),
     (43002, 43002), (43824, 43866), (43872, 43880), (43888, 43967), (64256, 64262),
     (64275, 64279), (65313, 65338), (65345, 65370), (66560, 66639), (66736, 66771),
     (66776, 66811), (66928, 66938), (66940, 66954), (66956, 66962), (66964, 66965),
     (66967, 66977), (66979, 66993), (66995, 67001), (67003, 67004), (68736, 68786),
     (68800, 68850), (71840, 71903), (93760, 93823), (119808, 119892), (119894, 119964),
     (119966, 119967), (119970, 119970), (119973, 119974), (119977, 119980),
     (119982, 119993), (119995, 119995), (119997, 120003), (120005, 120069),
     (120071, 120074), (120077, 120084), (120086, 120092), (120094, 120121),
     (120123, 120126), (120128, 120132), (120134, 120134), (120138, 120144),
     (120146, 120485), (120488, 120512), (120514, 120538), (120540, 120570),
     (120572, 120596), (120598, 120628), (120630, 120654), (120656, 120686),
     (120688, 120712), (120714, 120744), (120746, 120770), (120772, 120779),
     (122624, 122633), (122635, 122654), (125184, 125251), (127280, 127305),
     (127312, 127337), (127344, 127369)]"

definition in_ranges :: "(nat \<times> nat) list \<Rightarrow> nat \<Rightarrow> bool" where
  "in_ranges rs c = list_ex (\<lambda>(a, b). a \<le> c \<and> c \<le> b) rs"

definition case_ignorable :: "nat \<Rightarrow> bool" where
  "case_ignorable c = in_ranges case_ignorable_ranges c"

definition cased :: "nat \<Rightarrow> bool" where
  "cased c = in_ranges cased_ranges c"

text \<open>
  Whether a capital sigma is final: \<open>seen\<close> holds the code points that stand before it,
  the nearest first, and \<open>rest\<close> those that follow it.
\<close>

definition final_sigma :: "ustr \<Rightarrow> ustr \<Rightarrow> bool" where
  "final_sigma seen rest =
     ((case dropWhile case_ignorable seen of [] \<Rightarrow> False | c # _ \<Rightarrow> cased c)
      \<and> (case dropWhile case_ignorable rest of [] \<Rightarrow> True | c # _ \<Rightarrow> \<not> cased c))"

text \<open>
  The lower-case form of the rest of a string, \<open>seen\<close> being what stands before it
  (nearest first). U+0130 is the one code point whose lower-case form has two code points.
\<close>

fun lower_from :: "ustr \<Rightarrow> ustr \<Rightarrow> ustr" where
  "lower_from seen [] = []"
| "lower_from seen (c # cs) =
     (if c = 931 then [if final_sigma seen cs then 962 else 963]
      else if c = 304 then [105, 775]
      else [to_lower c])
     @ lower_from (c # seen) cs"

definition lower :: "ustr \<Rightarrow> ustr" where
  "lower s = lower_from [] s"

text \<open>\<open>s.replace(old, new)\<close> for a pattern \<open>old\<close> of one code point.\<close>

definition replace :: "nat \<Rightarrow> ustr \<Rightarrow> ustr \<Rightarrow> ustr" where
  "replace old new s = concat (map (\<lambda>c. if c = old then new else [c]) s)"

text \<open>\<open>v or ""\<close> for a value that is a string or \<open>None\<close>.\<close>

definition or_empty :: "ustr option \<Rightarrow> ustr" where
  "or_empty v = (case v of None \<Rightarrow> [] | Some s \<Rightarrow> s)"

section \<open>Exceptions\<close>

text \<open>
  The exceptions the script can raise. A function that can raise returns a sum, with the
  exception on the left. \<open>ReadError\<close> stands for what reading the table raises
  (\<open>csv.Error\<close> of the sniffer or the reader, \<open>UnicodeDecodeError\<close>, an error of the
  device), \<open>OSError\<close> for what opening or writing the output file raises, and
  \<open>UnicodeEncodeError\<close> is what \<open>print\<close> raises when the console cannot encode
  the check mark U+2714 of the last message.
\<close>

datatype error =
  AttributeError | ValueError | OverflowError | FileNotFoundError | ReadError | OSError
  | UnicodeEncodeError

section \<open>Python numbers\<close>

text \<open>
  A Python \<open>float\<close> is an IEEE binary64 value: a finite value (a real number; the
  sign of zero is not kept), an infinity (\<open>True\<close> for the negative one) or a NaN. A
  number of the output is a Python \<open>int\<close> or a \<open>float\<close>.
\<close>

datatype pyfloat = Finite real | Infinite bool | NaN

datatype number = PyInt int | PyFloat pyfloat

text \<open>
  The first code point and the length of every block of Unicode decimal digits (general
  category Nd) above ASCII; within a block the digit values count up from zero and repeat
  every ten code points.
\<close>

definition decimal_blocks :: "(nat \<times> nat) list" where
  "decimal_blocks =
    [(1632, 10), (1776, 10), (1984, 10), (2406, 10), (2534, 10), (2662, 10), (2790, 10),
     (2918, 10), (3046, 10), (3174, 10), (3302, 10), (3430, 10), (3558, 10), (3664, 10),
     (3792, 10), (3872, 10), (4160, 10), (4240, 10), (6112, 10), (6160, 10), (6470, 10),
     (6608, 10), (6784, 10), (6800, 10), (6992, 10), (7088, 10), (7232, 10), (7248, 10),
     (42528, 10), (43216, 10), (43264, 10), (43472, 10), (43504, 10), (43600, 10),
     (44016, 10), (65296, 10), (66720, 10), (68912, 10), (69734, 10), (69872, 10),
     (69942, 10), (70096, 10), (70384, 10), (70736, 10), (70864, 10), (71248, 10),
     (71360, 10), (71472, 10), (71904, 10), (72016, 10), (72784, 10), (73040, 10),
     (73120, 10), (92768, 10), (92864, 10), (93008, 10), (120782, 50), (123200, 10),
     (123632, 10), (125264, 10), (130032, 10)]"

definition decimal_digit :: "nat \<Rightarrow> nat option" where
  "decimal_digit c =
     (case find (\<lambda>(a, n). a \<le> c \<and> c < a + n) decimal_blocks of
        None \<Rightarrow> None
      | Some (a, n) \<Rightarrow> Some ((c - a) mod 10))"

text \<open>
  \<open>float(s)\<close> on a string, as CPython computes it. Every code point is first brought
  to ASCII: a code point below 127 stays, white space becomes a blank, a decimal digit
  becomes its ASCII digit, anything else becomes a question mark (CPython also cuts
  the string there; the question mark alone makes the conversion fail).
\<close>

definition to_ascii :: "nat \<Rightarrow> nat" where
  "to_ascii c =
     (if c < 127 then c
      else if isspace c then 32
      else (case decimal_digit c of Some d \<Rightarrow> 48 + d | None \<Rightarrow> 63))"

text \<open>The C locale's \<open>isspace\<close> and \<open>isdigit\<close> and \<open>tolower\<close>, on ASCII.\<close>

definition c_isspace :: "nat \<Rightarrow> bool" where
  "c_isspace c = ((9 \<le> c \<and> c \<le> 13) \<or> c = 32)"

definition c_isdigit :: "nat \<Rightarrow> bool" where
  "c_isdigit c = (48 \<le> c \<and> c \<le> 57)"

definition c_tolower :: "nat \<Rightarrow> nat" where
  "c_tolower c = (if 65 \<le> c \<and> c \<le> 90 then c + 32 else c)"

text \<open>
  An underscore is accepted only between two digits; \<open>prev\<close> is the character before
  (0 at the start).
\<close>

fun underscores_ok :: "nat \<Rightarrow> ustr \<Rightarrow> bool" where
  "underscores_ok prev [] = (prev \<noteq> 95)"
| "underscores_ok prev (c # cs) =
     ((if c = 95 then c_isdigit prev else if prev = 95 then c_isdigit c else True)
      \<and> underscores_ok c cs)"

definition take_sign :: "ustr \<Rightarrow> bool \<times> ustr" where
  "take_sign s =
     (case s of [] \<Rightarrow> (False, [])
      | c # cs \<Rightarrow> if c = 45 then (True, cs) else if c = 43 then (False, cs) else (False, s))"

definition digits_value :: "ustr \<Rightarrow> int" where
  "digits_value ds = foldl (\<lambda>acc c. 10 * acc + int (c - 48)) 0 ds"

text \<open>
  A decimal literal without its sign: digits, an optional point and digits (one digit at
  least in all), an optional exponent. The result is the mantissa \<open>m\<close> and the decimal
  exponent \<open>d\<close> of the value \<open>m * 10 ^ d\<close>; \<open>None\<close> when the text is not such a
  literal to its end.
\<close>

definition parse_decimal :: "ustr \<Rightarrow> (int \<times> int) option" where
  "parse_decimal s =
     (let ip = takeWhile c_isdigit s;
          r1 = dropWhile c_isdigit s;
          fp = (case r1 of [] \<Rightarrow> []
                | c # cs \<Rightarrow> if c = 46 then takeWhile c_isdigit cs else []);
          r2 = (case r1 of [] \<Rightarrow> []
                | c # cs \<Rightarrow> if c = 46 then dropWhile c_isdigit cs else r1);
          m = digits_value (ip @ fp)
      in if ip = [] \<and> fp = [] then None
         else (case r2 of
                 [] \<Rightarrow> Some (m, - int (length fp))
               | c # cs \<Rightarrow>
                   if c = 101 \<or> c = 69 then
                     (let (eneg, ds) = take_sign cs
                      in if ds \<noteq> [] \<and> list_all c_isdigit ds
                         then Some (m, (if eneg then - digits_value ds else digits_value ds)
                                       - int (length fp))
                         else None)
                   else None))"

text \<open>The position of the leading bit of a positive integer.\<close>

function ilog2 :: "int \<Rightarrow> int" where
  "ilog2 n = (if n < 2 then 0 else 1 + ilog2 (n div 2))"
  by pat_completeness auto
termination
  by (relation "measure nat") auto

text \<open>The largest \<open>k\<close> with \<open>2 ^ k \<le> a / b\<close>, for positive \<open>a\<close> and \<open>b\<close>.\<close>

definition floor_log2 :: "int \<Rightarrow> int \<Rightarrow> int" where
  "floor_log2 a b =
     (let k = ilog2 a - ilog2 b
      in if (if 0 \<le> k then b * 2 ^ nat k \<le> a else b \<le> a * 2 ^ nat (- k))
         then k else k - 1)"

text \<open>The integer nearest to \<open>a / b\<close>, a tie going to the even one.\<close>

definition round_half_even :: "int \<Rightarrow> int \<Rightarrow> int" where
  "round_half_even a b =
     (let q = a div b; r = a mod b
      in if 2 * r < b then q else if b < 2 * r then q + 1
         else if even q then q else q + 1)"

text \<open>
  The binary64 value nearest to \<open>m * 10 ^ d\<close> (round to nearest, ties to even): 53
  bits of precision, the exponent of the last bit not below \<open>-1074\<close>, and an infinity
  from \<open>2 ^ 1024\<close> on.
\<close>

definition to_double :: "bool \<Rightarrow> int \<Rightarrow> int \<Rightarrow> pyfloat" where
  "to_double neg m d =
     (if m = 0 then Finite 0
      else
        (let a = (if 0 \<le> d then m * 10 ^ nat d else m);
             b = (if 0 \<le> d then 1 else 10 ^ nat (- d));
             e = max (floor_log2 a b) (- 1022) - 52;
             n = (if 0 \<le> e then round_half_even a (b * 2 ^ nat e)
                  else round_half_even (a * 2 ^ nat (- e)) b);
             r = (if 0 \<le> e then of_int (n * 2 ^ nat e) else of_int n / of_int (2 ^ nat (- e)))
         in if 2 ^ 1024 \<le> r then Infinite neg else Finite (if neg then - r else r)))"

definition py_float :: "ustr \<Rightarrow> error + pyfloat" where
  "py_float u =
     (let s = rev (dropWhile c_isspace (rev (dropWhile c_isspace (map to_ascii u))))
      in if s = [] then Inl ValueError
         else if \<not> underscores_ok 0 s then Inl ValueError
         else
           (let (neg, t) = take_sign (filter (\<lambda>c. c \<noteq> 95) s);
                w = map c_tolower t
            in if w = ascii ''inf'' \<or> w = ascii ''infinity'' then Inr (Infinite neg)
               else if w = ascii ''nan'' then Inr NaN
               else (case parse_decimal t of
                       None \<Rightarrow> Inl ValueError
                     | Some (m, d) \<Rightarrow> Inr (to_double neg m d))))"

text \<open>\<open>x.is_integer()\<close> and \<open>int(x)\<close> (truncation towards zero) for a float.\<close>

definition is_integer :: "pyfloat \<Rightarrow> bool" where
  "is_integer x = (case x of Finite q \<Rightarrow> of_int \<lfloor>q\<rfloor> = q | Infinite _ \<Rightarrow> False | NaN \<Rightarrow> False)"

definition int_of_float :: "pyfloat \<Rightarrow> error + int" where
  "int_of_float x =
     (case x of
        Finite q \<Rightarrow> Inr (if 0 \<le> q then \<lfloor>q\<rfloor> else - \<lfloor>- q\<rfloor>)
      | Infinite _ \<Rightarrow> Inl OverflowError
      | NaN \<Rightarrow> Inl ValueError)"

text \<open>
  \<^verbatim>\<open>
  def parse_number(value):
      if value is None:
          return None
      s = str(value).strip()
      if not s:
          return None
      s = s.replace(U+2212, "-")
      s = s.replace(U+00B0, "").replace("C", "").replace("c", "")
      s = s.replace(",", ".")
      try:
          num = float(s)
      except ValueError:
          return None
      if num.is_integer():
          return int(num)
      return num
  \<close>
  Only a \<open>ValueError\<close> of \<open>float\<close> is caught; an exception of \<open>int\<close> would leave the
  function.
\<close>

definition parse_number :: "ustr option \<Rightarrow> error + number option" where
  "parse_number v =
     (case v of
        None \<Rightarrow> Inr None
      | Some x \<Rightarrow>
          (let s = strip x
           in if s = [] then Inr None
              else
                (let s1 = replace 8722 (ascii ''-'') s;
                     s2 = replace 99 [] (replace 67 [] (replace 176 [] s1));
                     s3 = replace 44 (ascii ''.'') s2
                 in case py_float s3 of
                      Inl e \<Rightarrow> (if e = ValueError then Inr None else Inl e)
                    | Inr num \<Rightarrow>
                        if is_integer num
                        then (case int_of_float num of
                                Inl e \<Rightarrow> Inl e
                              | Inr n \<Rightarrow> Inr (Some (PyInt n)))
                        else Inr (Some (PyFloat num)))))"

section \<open>Field parsers\<close>

text \<open>
  \<^verbatim>\<open>
  def parse_bool(value):
      if value is None:
          return True  # default to active
      s = str(value).strip().lower()
      if s in ("no", "nej", "false", "0"):
          return False
      return True
  \<close>
\<close>

definition parse_bool :: "ustr option \<Rightarrow> bool" where
  "parse_bool v =
     (case v of None \<Rightarrow> True
      | Some x \<Rightarrow>
          (let s = lower (strip x)
           in if s \<in> set [ascii ''no'', ascii ''nej'', ascii ''false'', ascii ''0'']
              then False else True))"

text \<open>
  \<^verbatim>\<open>
  def make_id(brand, code):
      b = (brand or "").strip().lower().replace(" ", "")
      c = (code or "").strip().lower().replace(" ", "")
      if not b and not c:
          return None
      if not c:
          return b
      return f"{b}_{c}"
  \<close>
\<close>

definition make_id :: "ustr option \<Rightarrow> ustr option \<Rightarrow> ustr option" where
  "make_id brand code =
     (let b = replace 32 [] (lower (strip (or_empty brand)));
          c = replace 32 [] (lower (strip (or_empty code)))
      in if b = [] \<and> c = [] then None
         else if c = [] then Some b
         else Some (b @ ascii ''_'' @ c))"

text \<open>
  \<^verbatim>\<open>
  def build_temp_range(min_val, max_val):
      if min_val is None and max_val is None:
          return None
      return {"min": min_val, "max": max_val}
  \<close>
\<close>

record temp_range =
  range_min :: "number option"
  range_max :: "number option"

definition build_temp_range :: "number option \<Rightarrow> number option \<Rightarrow> temp_range option" where
  "build_temp_range min_val max_val =
     (if min_val = None \<and> max_val = None then None
      else Some \<lparr>range_min = min_val, range_max = max_val\<rparr>)"

section \<open>The record assembler\<close>

text \<open>
  A row of \<open>csv.DictReader\<close> is a dictionary from column names to values. A column that
  the header does not have is no key of it; a column that a short line leaves without a
  field is a key with the value \<open>None\<close> (the reader's \<open>restval\<close>); any other column has
  a string.
\<close>

type_synonym row = "ustr \<Rightarrow> ustr option option"

text \<open>\<open>row.get(key, dflt)\<close>, for a default \<open>dflt\<close> that is a string or \<open>None\<close>.\<close>

definition get :: "row \<Rightarrow> ustr \<Rightarrow> ustr option \<Rightarrow> ustr option" where
  "get r key dflt = (case r key of None \<Rightarrow> dflt | Some v \<Rightarrow> v)"

text \<open>\<open>v.strip()\<close> on a value that may be \<open>None\<close>, which has no such method.\<close>

definition strip_of :: "ustr option \<Rightarrow> error + ustr" where
  "strip_of v = (case v of None \<Rightarrow> Inl AttributeError | Some s \<Rightarrow> Inr (strip s))"

text \<open>\<open>a or b\<close> on values that are strings or \<open>None\<close>: \<open>a\<close> when it is a string that is not empty.\<close>

definition py_or :: "ustr option \<Rightarrow> ustr option \<Rightarrow> ustr option" where
  "py_or a b = (case a of None \<Rightarrow> b | Some s \<Rightarrow> if s = [] then b else Some s)"

text \<open>Running the next statement when the last one did not raise.\<close>

definition and_then :: "error + 'a \<Rightarrow> ('a \<Rightarrow> error + 'b) \<Rightarrow> error + 'b" where
  "and_then r f = (case r of Inl e \<Rightarrow> Inl e | Inr x \<Rightarrow> f x)"

text \<open>\<open>str(n)\<close> for a natural number: its decimal digits.\<close>

fun str_nat :: "nat \<Rightarrow> ustr" where
  "str_nat n = (if n < 10 then [48 + n] else str_nat (n div 10) @ [48 + n mod 10])"

record temp_ranges =
  t_new :: "temp_range option"
  t_old :: "temp_range option"
  t_wet :: "temp_range option"

text \<open>
  A product of the output: the keys \<open>id\<close>, \<open>brand\<close>, \<open>line\<close>, \<open>code\<close>, \<open>product\<close>,
  \<open>type\<close>, \<open>segment\<close>, \<open>temp_ranges\<close>, \<open>priority\<close>, \<open>notes\<close>, \<open>imageFile\<close> and
  \<open>active\<close> of the dictionary the loop appends.
\<close>

record product =
  p_id :: ustr
  p_brand :: ustr
  p_line :: ustr
  p_code :: ustr
  p_product :: ustr
  p_type :: ustr
  p_segment :: ustr
  p_temp_ranges :: temp_ranges
  p_priority :: int
  p_notes :: "ustr list"
  p_imageFile :: "ustr option"
  p_active :: bool

text \<open>
  \<^verbatim>\<open>
  segment_raw = row.get("Race/Training", "") or row.get("race_training", "") or ""
  segment = segment_raw.strip().lower()
  if segment in ("race", "r"):
      segment = "race"
  elif segment in ("training", "touring", "t"):
      segment = "training"
  else:
      segment = ""
  \<close>
\<close>

definition segment_raw :: "row \<Rightarrow> ustr" where
  "segment_raw r =
     or_empty (py_or (py_or (get r (ascii ''Race/Training'') (Some []))
                            (get r (ascii ''race_training'') (Some [])))
                     (Some []))"

definition map_segment :: "ustr \<Rightarrow> ustr" where
  "map_segment raw =
     (let segment = lower (strip raw)
      in if segment \<in> set [ascii ''race'', ascii ''r''] then ascii ''race''
         else if segment \<in> set [ascii ''training'', ascii ''touring'', ascii ''t'']
         then ascii ''training''
         else [])"

text \<open>\<open>int(priority_val) if priority_val is not None else 70\<close>\<close>

definition priority_of :: "number option \<Rightarrow> error + int" where
  "priority_of priority_val =
     (case priority_val of
        None \<Rightarrow> Inr 70
      | Some (PyInt n) \<Rightarrow> Inr n
      | Some (PyFloat x) \<Rightarrow> int_of_float x)"

text \<open>
  The body of the loop of \<open>main\<close> for one row, its statements in the order of the source;
  \<open>n\<close> is \<open>len(products)\<close> when the row is reached. The result is the exception the
  body raises, or \<open>None\<close> when the row is skipped (\<open>continue\<close>), or the product that is
  appended.
\<close>

definition process_row :: "nat \<Rightarrow> row \<Rightarrow> error + product option" where
  "process_row n r =
     and_then (strip_of (get r (ascii ''brand'') (Some []))) (\<lambda>brand.
     and_then (strip_of (get r (ascii ''line'') (Some []))) (\<lambda>line.
     let segment = map_segment (segment_raw r) in
     and_then (strip_of (get r (ascii ''code'') (Some []))) (\<lambda>code.
     and_then (strip_of (get r (ascii ''product_name'') (Some []))) (\<lambda>product_name.
     and_then (strip_of (get r (ascii ''type'') (Some []))) (\<lambda>type_raw.
     let wax_type = (if lower type_raw = [] then ascii ''hardwax'' else lower type_raw) in
     and_then (parse_number (get r (ascii ''temp_new_min'') None)) (\<lambda>t_new_min.
     and_then (parse_number (get r (ascii ''temp_new_max'') None)) (\<lambda>t_new_max.
     and_then (parse_number (get r (ascii ''temp_old_min'') None)) (\<lambda>t_old_min.
     and_then (parse_number (get r (ascii ''temp_old_max'') None)) (\<lambda>t_old_max.
     and_then (parse_number (get r (ascii ''temp_wet_min'') None)) (\<lambda>t_wet_min.
     and_then (parse_number (get r (ascii ''temp_wet_max'') None)) (\<lambda>t_wet_max.
     let ranges = \<lparr>t_new = build_temp_range t_new_min t_new_max,
                    t_old = build_temp_range t_old_min t_old_max,
                    t_wet = build_temp_range t_wet_min t_wet_max\<rparr>;
         notes_raw = or_empty (get r (ascii ''notes'') (Some []));
         notes = (if strip notes_raw = [] then [] else [strip notes_raw]) in
     and_then (strip_of (get r (ascii ''image_file'') (Some []))) (\<lambda>image_raw.
     let image_file = (if image_raw = [] then None else Some image_raw) in
     and_then (parse_number (get r (ascii ''priority'') None)) (\<lambda>priority_val.
     and_then (priority_of priority_val) (\<lambda>priority.
     let active = parse_bool (get r (ascii ''active'') None) in
     if brand = [] \<and> code = [] \<and> product_name = [] then Inr None
     else
       (let product_id =
              (case make_id (Some brand) (Some code) of
                 None \<Rightarrow> ascii ''prod_'' @ str_nat (n + 1)
               | Some i \<Rightarrow> if i = [] then ascii ''prod_'' @ str_nat (n + 1) else i)
        in Inr (Some
             \<lparr>p_id = product_id,
              p_brand = brand,
              p_line = line,
              p_code = code,
              p_product = (if product_name = [] then strip (brand @ ascii '' '' @ code)
                           else product_name),
              p_type = wax_type,
              p_segment = segment,
              p_temp_ranges = ranges,
              p_priority = priority,
              p_notes = notes,
              p_imageFile = image_file,
              p_active = active\<rparr>))))))))))))))))"

section \<open>The pipeline driver\<close>

text \<open>The loop over the rows; \<open>products\<close> is the list built so far.\<close>

fun process_rows :: "product list \<Rightarrow> row list \<Rightarrow> error + product list" where
  "process_rows products [] = Inr products"
| "process_rows products (r # rows) =
     (case process_row (length products) r of
        Inl e \<Rightarrow> Inl e
      | Inr None \<Rightarrow> process_rows products rows
      | Inr (Some p) \<Rightarrow> process_rows (products @ [p]) rows)"

record document =
  version :: ustr
  scope :: ustr
  products :: "product list"

text \<open>
  What the script finds at \<open>CSV_PATH\<close>: no file; a file that cannot be opened or whose
  first 4096 characters cannot be read or sniffed (the sniffer finds no delimiter, as in
  an empty file, or the decoder raises); a file with the rows that the reader yields; or
  a file whose reader yields some rows and then raises (the rows are read one by one
  while the loop runs).
\<close>

datatype csv_file = Missing | Unreadable | Table "row list" | Broken "row list"

text \<open>
  What stands at \<open>OUT_JSON_PATH\<close>: no file, a file that holds a complete document, or
  a file that holds something else (as after a write that was cut short).
\<close>

datatype out_file = NoFile | Complete document | Partial

text \<open>
  What opening the output file for writing and writing to it do: both succeed; opening
  raises (the path is a directory, or may not be written); or opening succeeds, which
  empties the file, and writing raises (the device is full).
\<close>

datatype out_device = Writes | Refuses | Fails

text \<open>
  The surroundings of the script: the input file, the output file, what the device does
  with a write to the output file, and whether standard output can encode the check mark
  U+2714 of the last message (UTF-8 can, cp1252 and ASCII cannot).
\<close>

record files =
  csv_path :: csv_file
  out_json_path :: out_file
  out_device :: out_device
  stdout_encodes :: bool

text \<open>
  \<open>main\<close>: the exception it ends with, or the number of active products it prints,
  and the files afterwards. The output file is opened and written after the loop only,
  and the message is printed after the output file is closed.
\<close>

definition main :: "files \<Rightarrow> (error + nat) \<times> files" where
  "main fs =
     (case csv_path fs of
        Missing \<Rightarrow> (Inl FileNotFoundError, fs)
      | Unreadable \<Rightarrow> (Inl ReadError, fs)
      | Broken rows \<Rightarrow>
          (case process_rows [] rows of
             Inl e \<Rightarrow> (Inl e, fs)
           | Inr all_products \<Rightarrow> (Inl ReadError, fs))
      | Table rows \<Rightarrow>
          (case process_rows [] rows of
             Inl e \<Rightarrow> (Inl e, fs)
           | Inr all_products \<Rightarrow>
               (let active_products = filter p_active all_products;
                    wax_data = \<lparr>version = ascii ''2.0'',
                                scope = ascii ''Classic grip '' @ [8211] @ ascii '' new/old/wet'',
                                products = active_products\<rparr>
                in case out_device fs of
                     Refuses \<Rightarrow> (Inl OSError, fs)
                   | Fails \<Rightarrow> (Inl OSError, fs\<lparr>out_json_path := Partial\<rparr>)
                   | Writes \<Rightarrow>
                       (let written = fs\<lparr>out_json_path := Complete wax_data\<rparr>
                        in if stdout_encodes fs
                           then (Inr (length active_products), written)
                           else (Inl UnicodeEncodeError, written)))))"

text \<open>
  The normal form the specification describes for one part of an identifier: lower-cased,
  with no space left inside.
\<close>

definition spec_id_part :: "ustr \<Rightarrow> ustr" where
  "spec_id_part s = filter (\<lambda>c. c \<noteq> 32) (lower s)"

section \<open>Definitions that follow the specification\<close>

text \<open>
  The normalisation of \<open>parse_number\<close> in the words of the specification: trim; replace
  the minus sign U+2212 by the hyphen-minus; remove every degree sign and every letter C
  or c; replace every comma by a period.
\<close>

definition spec_normalize :: "ustr \<Rightarrow> ustr" where
  "spec_normalize x =
     map (\<lambda>c. if c = 44 then 46 else c)
       (filter (\<lambda>c. c \<noteq> 176 \<and> c \<noteq> 67 \<and> c \<noteq> 99)
         (map (\<lambda>c. if c = 8722 then 45 else c) (strip x)))"

text \<open>
  \<open>parse_number\<close> in the words of the specification: null for a missing value and for a
  parse failure; a parsed value with zero fractional part as an integer; any other parsed
  value as it is. Parsing is Python's \<open>float\<close>.
\<close>

definition spec_parse_number :: "ustr option \<Rightarrow> number option" where
  "spec_parse_number v =
     (case v of
        None \<Rightarrow> None
      | Some x \<Rightarrow>
          (case py_float (spec_normalize x) of
             Inl e \<Rightarrow> None
           | Inr f \<Rightarrow>
               (case f of
                  Finite q \<Rightarrow> if frac q = 0 then Some (PyInt \<lfloor>q\<rfloor>) else Some (PyFloat f)
                | Infinite b \<Rightarrow> Some (PyFloat f)
                | NaN \<Rightarrow> Some (PyFloat f))))"

text \<open>The letters of ASCII.\<close>

definition ascii_letter :: "nat \<Rightarrow> bool" where
  "ascii_letter c = ((65 \<le> c \<and> c \<le> 90) \<or> (97 \<le> c \<and> c \<le> 122))"

text \<open>
  The ASCII characters that can stand in a text \<open>float\<close> accepts: white space, digits,
  signs, the point, the underscore, the exponent mark and the letters of "inf",
  "infinity" and "nan".
\<close>

definition float_ascii :: "nat \<Rightarrow> bool" where
  "float_ascii c = (c_isspace c \<or> c_isdigit c \<or> c \<in> set (ascii ''+-._eEinfatyINFATY''))"

section \<open>Rows, records and examples\<close>

text \<open>
  A blank row in the sense of the skip rule: brand, code and product name are all empty
  after trimming.
\<close>

definition blank_row :: "row \<Rightarrow> bool" where
  "blank_row r =
     (strip_of (get r (ascii ''brand'') (Some [])) = Inr []
      \<and> strip_of (get r (ascii ''code'') (Some [])) = Inr []
      \<and> strip_of (get r (ascii ''product_name'') (Some [])) = Inr [])"

text \<open>The value the \<open>active\<close> column of a row parses to.\<close>

definition row_active :: "row \<Rightarrow> bool" where
  "row_active r = parse_bool (get r (ascii ''active'') None)"

text \<open>A product is the record of a row when the loop body builds it from that row.\<close>

definition record_of :: "product \<Rightarrow> row \<Rightarrow> bool" where
  "record_of p r = (\<exists>n. process_row n r = Inr (Some p))"

text \<open>The invariant of a temperature range: absent, or with a bound that is not null.\<close>

definition range_ok :: "temp_range option \<Rightarrow> bool" where
  "range_ok t =
     (case t of None \<Rightarrow> True | Some x \<Rightarrow> \<not> (range_min x = None \<and> range_max x = None))"

text \<open>
  The row \<open>csv.DictReader\<close> makes of the cells of a line under the names of the header:
  the names are given their cells in turn, a later name replacing an equal earlier one,
  and a name past the last cell of a short line is given \<open>None\<close>. (The cells of a line
  longer than the header go under the key \<open>None\<close>, which the script never reads.)
\<close>

definition dict_row :: "ustr list \<Rightarrow> ustr list \<Rightarrow> row" where
  "dict_row fieldnames cells =
     foldl (\<lambda>d (k, v). d(k \<mapsto> v)) (\<lambda>k. None)
       (zip fieldnames (map Some cells @ replicate (length fieldnames - length cells) None))"

text \<open>
  Rows for the examples, all under one header of seven columns: the two rows of the
  specification's end-to-end example, a separator row of empty fields, a short line that
  has a brand and no further field, and a row whose priority is the text "inf". They are
  the rows that the reader makes of the lines

  \<^verbatim>\<open>
  brand,code,product_name,temp_new_min,temp_new_max,priority,active
  Swix,VP30,,-5,-2,,yes
  Rode,,,,,,no
  , ,,,,,
  Swix
  Swix,VP30,,,,inf,
  \<close>
\<close>

definition example_header :: "ustr list" where
  "example_header =
     [ascii ''brand'', ascii ''code'', ascii ''product_name'', ascii ''temp_new_min'',
      ascii ''temp_new_max'', ascii ''priority'', ascii ''active'']"

definition swix_row :: row where
  "swix_row = dict_row example_header
     [ascii ''Swix'', ascii ''VP30'', [], ascii ''-5'', ascii ''-2'', [], ascii ''yes'']"

definition rode_row :: row where
  "rode_row = dict_row example_header [ascii ''Rode'', [], [], [], [], [], ascii ''no'']"

definition separator_row :: row where
  "separator_row = dict_row example_header [[], ascii '' '', [], [], [], [], []]"

definition short_row :: row where
  "short_row = dict_row example_header [ascii ''Swix'']"

definition inf_row :: row where
  "inf_row = dict_row example_header
     [ascii ''Swix'', ascii ''VP30'', [], [], [], ascii ''inf'', []]"

text \<open>
  The surroundings of a run over the two example rows with a separator row between them:
  no output file yet, a device that writes, and a console that encodes the check mark.
\<close>

definition example_files :: files where
  "example_files =
     \<lparr>csv_path = Table [swix_row, separator_row, rode_row], out_json_path = NoFile,
      out_device = Writes, stdout_encodes = True\<rparr>"

text \<open>The document that the run over the example rows writes.\<close>

definition example_document :: document where
  "example_document =
     \<lparr>version = ascii ''2.0'',
      scope = ascii ''Classic grip '' @ [8211] @ ascii '' new/old/wet'',
      products =
        [\<lparr>p_id = ascii ''swix_vp30'', p_brand = ascii ''Swix'', p_line = [],
          p_code = ascii ''VP30'', p_product = ascii ''Swix VP30'',
          p_type = ascii ''hardwax'', p_segment = [],
          p_temp_ranges =
            \<lparr>t_new = Some \<lparr>range_min = Some (PyInt (- 5)), range_max = Some (PyInt (- 2))\<rparr>,
             t_old = None, t_wet = None\<rparr>,
          p_priority = 70, p_notes = [], p_imageFile = None, p_active = True\<rparr>]\<rparr>"

section \<open>Facts about strings\<close>

declare ilog2.simps [simp del]

declare str_nat.simps [simp del]

lemma ilog2_numeral [simp]:
  "ilog2 (numeral k) = (if (numeral k :: int) < 2 then 0 else 1 + ilog2 (numeral k div 2))"
  by (rule ilog2.simps)

lemma ilog2_one [simp]: "ilog2 1 = 0"
  by (simp add: ilog2.simps)

lemma ilog2_zero [simp]: "ilog2 0 = 0"
  by (simp add: ilog2.simps)

lemma ascii_Nil [simp]: "ascii [] = []"
  by (simp add: ascii_def)

lemma ascii_Cons [simp]: "ascii (c # cs) = of_char c # ascii cs"
  by (simp add: ascii_def)

lemma replace_Nil [simp]: "replace old new [] = []"
  by (simp add: replace_def)

lemma replace_Cons [simp]:
  "replace old new (c # cs) = (if c = old then new else [c]) @ replace old new cs"
  by (simp add: replace_def)

lemma replace_delete: "replace old [] s = filter (\<lambda>c. c \<noteq> old) s"
  by (induction s) simp_all

lemma lower_Nil [simp]: "lower [] = []"
  by (simp add: lower_def)

lemmas lower_eval = lower_def to_lower_def

lemmas lower_tables =
  lower_blocks_def final_sigma_def case_ignorable_def cased_def in_ranges_def
  case_ignorable_ranges_def cased_ranges_def

lemma lower_blocks_targets: "list_all (\<lambda>(a, b, s, t). 90 < t) lower_blocks"
  by (simp add: lower_blocks_def)

lemma to_lower_not_upper: "\<not> (65 \<le> to_lower c \<and> to_lower c \<le> 90)"
proof (cases "find (\<lambda>(a, b, s, t). a \<le> c \<and> c \<le> b \<and> (c - a) mod s = 0) lower_blocks")
  case None
  then show ?thesis by (simp add: to_lower_def)
next
  case (Some blk)
  obtain a b s t where blk: "blk = (a, b, s, t)"
    by (cases blk) auto
  from Some have "\<exists>i<length lower_blocks. blk = lower_blocks ! i"
    unfolding find_Some_iff by blast
  then have "blk \<in> set lower_blocks"
    by (auto simp: in_set_conv_nth)
  with lower_blocks_targets blk have "90 < t"
    by (auto simp: list_all_iff)
  with Some blk show ?thesis by (simp add: to_lower_def)
qed

lemma lower_from_not_upper:
  "\<forall>x \<in> set (lower_from seen s). \<not> (65 \<le> x \<and> x \<le> 90)"
proof (induction s arbitrary: seen)
  case Nil
  show ?case by simp
next
  case (Cons c cs)
  from to_lower_not_upper [of c] Cons.IH [of "c # seen"] show ?case
    by auto
qed

lemma strip_Nil [simp]: "strip [] = []"
  by (simp add: strip_def)

section \<open>The truth values of the active column\<close>

text \<open>
  C7. \<open>parse_bool\<close> is true on \<open>None\<close>; on a string it is false exactly when the trimmed,
  lower-cased string is one of "no", "nej", "false", "0". So "Nej" and "NO" are false, and
  "", "yes" and any other text are true.
\<close>

theorem parse_bool_spec:
  "parse_bool None = True
   \<and> parse_bool (Some s) =
       (lower (strip s) \<notin> {ascii ''no'', ascii ''nej'', ascii ''false'', ascii ''0''})
   \<and> parse_bool (Some (ascii ''Nej'')) = False
   \<and> parse_bool (Some (ascii ''NO'')) = False
   \<and> parse_bool (Some (ascii '''')) = True
   \<and> parse_bool (Some (ascii ''yes'')) = True
   \<and> parse_bool (Some (ascii ''garbage'')) = True"
  by (simp add: parse_bool_def Let_def strip_def isspace_def lower_eval)

theorem parse_bool_spec_witness:
  "parse_bool (Some (ascii '' False ''))
     = (lower (strip (ascii '' False ''))
          \<notin> {ascii ''no'', ascii ''nej'', ascii ''false'', ascii ''0''})
   \<and> parse_bool (Some (ascii '' False '')) = False"
  using parse_bool_spec [of "ascii '' False ''"]
  by (simp add: strip_def isspace_def lower_eval)

section \<open>Identifiers\<close>

text \<open>
  C6. \<open>make_id\<close> lower-cases brand and code and removes the spaces inside them, each on
  its own (after trimming them, with \<open>None\<close> read as the empty string). It returns
  \<open>None\<close> when both normal forms are empty, the brand's alone when the code's is empty,
  and otherwise the two joined by an underscore. A normal form has no space and no ASCII
  capital. So \<open>make_id "Swix" "VP30" = "swix_vp30"\<close>, \<open>make_id "" "" = None\<close> and
  \<open>make_id "Swix" "" = "swix"\<close>. Lower-casing is that of Python's \<open>str.lower\<close> on every
  string: the Cyrillic brand U+041B U+0423 U+0427 becomes U+043B U+0443 U+0447, a capital
  sigma at the end of a word becomes the final sigma U+03C2, and U+0130 becomes the two
  code points U+0069 U+0307.
\<close>

theorem make_id_spec:
  "make_id brand code =
     (let b = spec_id_part (strip (or_empty brand));
          c = spec_id_part (strip (or_empty code))
      in if b = [] \<and> c = [] then None
         else if c = [] then Some b
         else Some (b @ ascii ''_'' @ c))
   \<and> 32 \<notin> set (spec_id_part s)
   \<and> (\<forall>x \<in> set (spec_id_part s). \<not> (65 \<le> x \<and> x \<le> 90))
   \<and> make_id (Some (ascii ''Swix'')) (Some (ascii ''VP30'')) = Some (ascii ''swix_vp30'')
   \<and> make_id (Some []) (Some []) = None
   \<and> make_id None None = None
   \<and> make_id (Some (ascii ''Swix'')) (Some []) = Some (ascii ''swix'')
   \<and> make_id (Some [1051, 1059, 1063]) (Some (ascii ''VP30''))
       = Some ([1083, 1091, 1095] @ ascii ''_vp30'')
   \<and> make_id (Some [927, 916, 927, 931]) (Some [304])
       = Some ([959, 948, 959, 962] @ ascii ''_'' @ [105, 775])"
proof -
  have general: "make_id brand code =
     (let b = spec_id_part (strip (or_empty brand));
          c = spec_id_part (strip (or_empty code))
      in if b = [] \<and> c = [] then None
         else if c = [] then Some b
         else Some (b @ ascii ''_'' @ c))"
    by (simp add: make_id_def spec_id_part_def replace_delete)
  have no_space: "32 \<notin> set (spec_id_part s)"
    by (simp add: spec_id_part_def)
  have no_capital: "\<forall>x \<in> set (spec_id_part s). \<not> (65 \<le> x \<and> x \<le> 90)"
    using lower_from_not_upper [of "[]" s] by (simp add: spec_id_part_def lower_def)
  have examples:
    "make_id (Some (ascii ''Swix'')) (Some (ascii ''VP30'')) = Some (ascii ''swix_vp30'')"
    "make_id (Some []) (Some []) = None"
    "make_id None None = None"
    "make_id (Some (ascii ''Swix'')) (Some []) = Some (ascii ''swix'')"
    by (simp_all add: make_id_def or_empty_def strip_def isspace_def lower_eval)
  have unicode:
    "make_id (Some [1051, 1059, 1063]) (Some (ascii ''VP30''))
       = Some ([1083, 1091, 1095] @ ascii ''_vp30'')"
    "make_id (Some [927, 916, 927, 931]) (Some [304])
       = Some ([959, 948, 959, 962] @ ascii ''_'' @ [105, 775])"
    by (simp_all add: make_id_def or_empty_def strip_def isspace_def lower_eval lower_tables)
  from general no_space no_capital examples unicode show ?thesis
    by blast
qed

theorem make_id_spec_witness:
  "make_id (Some (ascii '' Rode '')) (Some (ascii ''Multi Grade''))
     = Some (ascii ''rode_multigrade'')
   \<and> 32 \<notin> set (spec_id_part (ascii ''Multi Grade''))"
  using make_id_spec [of "Some (ascii '' Rode '')" "Some (ascii ''Multi Grade'')"
      "ascii ''Multi Grade''"]
  by (simp add: or_empty_def strip_def isspace_def lower_eval spec_id_part_def)

section \<open>Temperature ranges\<close>

lemma build_temp_range_None: "build_temp_range a b = None \<longleftrightarrow> a = None \<and> b = None"
  by (simp add: build_temp_range_def)

lemma build_temp_range_Some:
  "build_temp_range a b = Some t \<Longrightarrow> range_min t = a \<and> range_max t = b"
  by (auto simp: build_temp_range_def split: if_splits)

section \<open>The segment column\<close>



section \<open>Facts about number parsing\<close>

lemma take_sign_set: "take_sign cs = (eneg, ds) \<Longrightarrow> x \<in> set cs \<Longrightarrow> x \<in> set ds \<or> x = 43 \<or> x = 45"
  by (auto simp: take_sign_def split: list.splits if_splits)

lemma in_takeWhile_dropWhile: "x \<in> set xs \<Longrightarrow> P x \<or> x \<in> set (dropWhile P xs)"
  by (induction xs) auto

lemma parse_decimal_chars:
  assumes "parse_decimal t = Some md" and "x \<in> set t"
  shows "c_isdigit x \<or> x = 46 \<or> x = 101 \<or> x = 69 \<or> x = 43 \<or> x = 45"
proof -
  let ?r1 = "dropWhile c_isdigit t"
  from assms(2) have 1: "c_isdigit x \<or> x \<in> set ?r1"
    by (rule in_takeWhile_dropWhile)
  show ?thesis
  proof (cases "c_isdigit x")
    case True then show ?thesis by simp
  next
    case False
    with 1 have xr1: "x \<in> set ?r1" by simp
    then obtain c cs where r1: "?r1 = c # cs" by (cases ?r1) auto
    show ?thesis
    proof (cases "c = 46")
      case True
      let ?r2 = "dropWhile c_isdigit cs"
      from xr1 r1 True have "x = 46 \<or> x \<in> set cs" by auto
      then have "x = 46 \<or> x \<in> set ?r2"
        using in_takeWhile_dropWhile [of x cs c_isdigit] False by auto
      moreover
      { assume xr2: "x \<in> set ?r2"
        then obtain c' cs' where r2: "?r2 = c' # cs'" by (cases ?r2) auto
        from assms(1) r1 True r2 have e: "c' = 101 \<or> c' = 69"
          by (auto simp: parse_decimal_def Let_def split: if_splits)
        from assms(1) r1 True r2 e obtain eneg ds where ts: "take_sign cs' = (eneg, ds)"
          and ds: "list_all c_isdigit ds"
          by (auto simp: parse_decimal_def Let_def split: if_splits prod.splits)
        from xr2 r2 have "x = c' \<or> x \<in> set cs'" by auto
        with e take_sign_set [OF ts] ds False have ?thesis
          by (auto simp: list_all_iff) }
      ultimately show ?thesis by auto
    next
      case False
      note c46 = this
      from assms(1) r1 c46 have e: "c = 101 \<or> c = 69"
        by (auto simp: parse_decimal_def Let_def split: if_splits)
      from assms(1) r1 c46 e obtain eneg ds where ts: "take_sign cs = (eneg, ds)"
          and ds: "list_all c_isdigit ds"
        by (auto simp: parse_decimal_def Let_def split: if_splits prod.splits)
      from xr1 r1 have "x = c \<or> x \<in> set cs" by auto
      with e take_sign_set [OF ts] ds \<open>\<not> c_isdigit x\<close> show ?thesis
        by (auto simp: list_all_iff)
    qed
  qed
qed

lemma tolower_inf_nan:
  "c_tolower c \<in> set (ascii ''infinity'') \<or> c_tolower c \<in> set (ascii ''nan'')
   \<Longrightarrow> c \<in> set (ascii ''infatyINFATY'')"
  by (auto simp: c_tolower_def split: if_splits)

lemma in_strip_c:
  assumes "x \<in> set xs"
  shows "P x \<or> x \<in> set (rev (dropWhile P (rev (dropWhile P xs))))"
proof (cases "P x")
  case True then show ?thesis by simp
next
  case False
  with assms in_takeWhile_dropWhile [of x xs P] have "x \<in> set (dropWhile P xs)" by auto
  then have "x \<in> set (rev (dropWhile P xs))" by simp
  with False in_takeWhile_dropWhile [of x "rev (dropWhile P xs)" P]
  show ?thesis by auto
qed

lemma py_float_chars:
  assumes ok: "py_float u = Inr f" and cu: "c \<in> set u"
  shows "float_ascii (to_ascii c)"
proof (cases "c_isspace (to_ascii c)")
  case True then show ?thesis by (simp add: float_ascii_def)
next
  case False
  let ?s = "rev (dropWhile c_isspace (rev (dropWhile c_isspace (map to_ascii u))))"
  let ?x = "to_ascii c"
  from cu have "?x \<in> set (map to_ascii u)" by simp
  with False in_strip_c [of ?x "map to_ascii u" c_isspace] have xs: "?x \<in> set ?s" by auto
  show ?thesis
  proof (cases "?x = 95")
    case True then show ?thesis by (simp add: float_ascii_def)
  next
    case False
    with xs have xf: "?x \<in> set (filter (\<lambda>c. c \<noteq> 95) ?s)" by simp
    obtain neg t where ts: "take_sign (filter (\<lambda>c. c \<noteq> 95) ?s) = (neg, t)"
      by (cases "take_sign (filter (\<lambda>c. c \<noteq> 95) ?s)") auto
    from take_sign_set [OF ts xf] have xt: "?x \<in> set t \<or> ?x = 43 \<or> ?x = 45" .
    show ?thesis
    proof (cases "?x \<in> set t")
      case False with xt show ?thesis by (auto simp: float_ascii_def)
    next
      case True
      let ?w = "map c_tolower t"
      show ?thesis
      proof (cases "?w = ascii ''inf'' \<or> ?w = ascii ''infinity'' \<or> ?w = ascii ''nan''")
        case True
        note w = this
        from \<open>?x \<in> set t\<close> have "c_tolower ?x \<in> set ?w" by simp
        with w have "c_tolower ?x \<in> set (ascii ''infinity'') \<or> c_tolower ?x \<in> set (ascii ''nan'')"
          by auto
        from tolower_inf_nan [OF this] show ?thesis by (auto simp: float_ascii_def)
      next
        case False
        with ok ts obtain md where "parse_decimal t = Some md"
          by (auto simp: py_float_def Let_def split: if_splits option.splits)
        from parse_decimal_chars [OF this True] show ?thesis
          by (auto simp: float_ascii_def)
      qed
    qed
  qed
qed

lemma py_float_error: "py_float u = Inl e \<Longrightarrow> e = ValueError"
  by (auto simp: py_float_def Let_def split: if_splits option.splits prod.splits)

lemma is_integer_int: "is_integer x \<Longrightarrow> \<exists>n. int_of_float x = Inr n"
  by (cases x) (auto simp: is_integer_def int_of_float_def)

lemma parse_number_total: "\<exists>r. parse_number v = Inr r"
proof (cases v)
  case None then show ?thesis by (simp add: parse_number_def)
next
  case (Some x)
  show ?thesis
    using py_float_error is_integer_int
    by (fastforce simp: parse_number_def Some Let_def split: sum.splits)
qed

lemma in_strip: "x \<in> set xs \<Longrightarrow> \<not> isspace x \<Longrightarrow> x \<in> set (strip xs)"
  using in_strip_c [of x xs isspace] by (auto simp: strip_def)

lemma in_replace: "x \<in> set s \<Longrightarrow> x \<noteq> old \<Longrightarrow> x \<in> set (replace old new s)"
  by (induction s) auto

lemma parse_number_reject:
  assumes cx: "c \<in> set x" and sp: "\<not> isspace c"
    and keep: "c \<noteq> 8722" "c \<noteq> 176" "c \<noteq> 67" "c \<noteq> 99" "c \<noteq> 44"
    and bad: "\<not> float_ascii (to_ascii c)"
  shows "parse_number (Some x) = Inr None"
proof -
  let ?s3 = "replace 44 (ascii ''.'') (replace 99 [] (replace 67 [] (replace 176 []
               (replace 8722 (ascii ''-'') (strip x)))))"
  from cx sp have cs: "c \<in> set (strip x)" by (rule in_strip)
  then have ne: "strip x \<noteq> []" by auto
  from cs keep have "c \<in> set ?s3" by (intro in_replace)
  with bad py_float_chars have "\<forall>f. py_float ?s3 \<noteq> Inr f" by blast
  then obtain e where "py_float ?s3 = Inl e" by (cases "py_float ?s3") auto
  moreover from this have "e = ValueError" by (rule py_float_error)
  ultimately show ?thesis using ne by (simp add: parse_number_def Let_def)
qed

lemma non_ascii_bad:
  assumes "128 \<le> c" "\<not> isspace c" "decimal_digit c = None"
  shows "\<not> float_ascii (to_ascii c)"
  using assms
  by (simp add: to_ascii_def float_ascii_def c_isspace_def c_isdigit_def)

lemma replace_single: "replace old [new] s = map (\<lambda>c. if c = old then new else c) s"
  by (induction s) simp_all

lemma normalize_eq:
  "replace 44 [46] (replace 99 [] (replace 67 [] (replace 176 []
               (replace 8722 [45] s)))) =
   map (\<lambda>c. if c = 44 then 46 else c)
       (filter (\<lambda>c. c \<noteq> 176 \<and> c \<noteq> 67 \<and> c \<noteq> 99)
         (map (\<lambda>c. if c = 8722 then 45 else c) s))"
proof -
  have "(\<lambda>x::nat. x \<noteq> 99 \<and> x \<noteq> 67 \<and> x \<noteq> 176) = (\<lambda>c. c \<noteq> 176 \<and> c \<noteq> 67 \<and> c \<noteq> 99)"
    by (rule ext) auto
  then show ?thesis
    by (simp add: replace_single replace_delete)
qed

lemma py_float_Nil: "py_float [] = Inl ValueError"
  by (simp add: py_float_def)

lemma int_of_float_integer:
  "frac q = 0 \<Longrightarrow> int_of_float (Finite q) = Inr \<lfloor>q\<rfloor>"
proof -
  assume "frac q = 0"
  then have "q \<in> \<int>" by (simp add: frac_eq_0_iff)
  then obtain k where "q = of_int k" by (auto elim: Ints_cases)
  then show ?thesis by (simp add: int_of_float_def)
qed

lemma is_integer_frac: "is_integer (Finite q) \<longleftrightarrow> frac q = 0"
  by (auto simp: is_integer_def frac_def)

lemma parse_number_refines: "parse_number v = Inr (spec_parse_number v)"
proof (cases v)
  case None then show ?thesis by (simp add: parse_number_def spec_parse_number_def)
next
  case (Some x)
  show ?thesis
  proof (cases "strip x = []")
    case True
    then show ?thesis
      by (simp add: Some parse_number_def spec_parse_number_def spec_normalize_def py_float_Nil)
  next
    case False
    have norm: "replace 44 [46] (replace 99 [] (replace 67 [] (replace 176 []
               (replace 8722 [45] (strip x))))) = spec_normalize x"
      by (simp add: normalize_eq spec_normalize_def)
    show ?thesis
    proof (cases "py_float (spec_normalize x)")
      case (Inl e)
      then show ?thesis using False py_float_error [OF Inl]
        by (simp add: Some parse_number_def spec_parse_number_def Let_def norm)
    next
      case (Inr f)
      show ?thesis
      proof (cases f)
        case (Finite q)
        show ?thesis
        proof (cases "frac q = 0")
          case True
          with is_integer_frac [of q] int_of_float_integer [OF True] Inr Finite False
          show ?thesis
            by (simp add: Some parse_number_def spec_parse_number_def Let_def norm)
        next
          case nz: False
          with is_integer_frac [of q] Inr Finite False
          show ?thesis
            by (simp add: Some parse_number_def spec_parse_number_def Let_def norm)
        qed
      next
        case (Infinite b)
        with Inr False show ?thesis
          by (simp add: Some parse_number_def spec_parse_number_def Let_def norm is_integer_def)
      next
        case NaN
        with Inr False show ?thesis
          by (simp add: Some parse_number_def spec_parse_number_def Let_def norm is_integer_def)
      qed
    qed
  qed
qed

lemma ascii_letter_bad:
  assumes letter: "ascii_letter c" and other: "c \<notin> set (ascii ''CcEeAaFfIiNnTtYy'')"
  shows "\<not> isspace c \<and> c \<noteq> 8722 \<and> c \<noteq> 176 \<and> c \<noteq> 67 \<and> c \<noteq> 99 \<and> c \<noteq> 44
         \<and> \<not> float_ascii (to_ascii c)"
proof -
  from letter have range: "65 \<le> c" "c \<le> 122" and us: "c \<noteq> 95"
    by (auto simp: ascii_letter_def)
  from range have asc: "to_ascii c = c"
    by (simp add: to_ascii_def)
  from range have sp: "\<not> isspace c" "\<not> c_isspace c" "\<not> c_isdigit c"
    by (simp_all add: isspace_def c_isspace_def c_isdigit_def)
  from range have sym: "c \<noteq> 43" "c \<noteq> 45" "c \<noteq> 46" "c \<noteq> 8722" "c \<noteq> 176" "c \<noteq> 44"
    by simp_all
  from other have "c \<noteq> 67" "c \<noteq> 99" by simp_all
  moreover from other us sym have "c \<notin> set (ascii ''+-._eEinfatyINFATY'')"
    by simp
  ultimately show ?thesis
    using sp sym by (simp add: asc float_ascii_def)
qed

section \<open>Parsing numbers\<close>

lemmas number_eval =
  parse_number_def py_float_def Let_def strip_def isspace_def to_ascii_def c_isspace_def
  c_isdigit_def c_tolower_def take_sign_def parse_decimal_def digits_value_def to_double_def
  floor_log2_def round_half_even_def is_integer_def int_of_float_def

lemma parse_number_minus_five:
  "parse_number (Some ([8722] @ ascii ''5,0'' @ [176] @ ascii ''C'')) = Inr (Some (PyInt (- 5)))"
  by (simp add: number_eval)

lemma parse_number_twelve_and_a_half:
  "parse_number (Some (ascii ''12.5'')) = Inr (Some (PyFloat (Finite (25 / 2))))"
  by (simp add: number_eval)

lemma parse_number_abc: "parse_number (Some (ascii ''abc'')) = Inr None"
  by (simp add: number_eval)

lemma parse_number_exponent: "parse_number (Some (ascii ''1e5'')) = Inr (Some (PyInt 100000))"
  by (simp add: number_eval)

lemma parse_number_inf:
  "parse_number (Some (ascii ''inf'')) = Inr (Some (PyFloat (Infinite False)))"
  by (simp add: number_eval)

lemma parse_number_nan: "parse_number (Some (ascii ''nan'')) = Inr (Some (PyFloat NaN))"
  by (simp add: number_eval)

lemma spec_parse_number_fraction:
  "spec_parse_number v = Some (PyFloat (Finite q)) \<Longrightarrow> frac q \<noteq> 0"
  by (auto simp: spec_parse_number_def split: option.splits sum.splits pyfloat.splits if_splits)

text \<open>
  C3. \<open>parse_number\<close> trims the string, replaces the minus sign U+2212 by the
  hyphen-minus, removes every degree sign and every C and c, replaces every comma by a
  period and parses the result as a number (with Python's \<open>float\<close>); it returns null for
  a missing, an empty or a blank value and for a parse failure, and a parsed value with
  zero fractional part as an integer, never as a float. So the text U+2212 "5,0"
  U+00B0 "C" gives -5, "12.5" gives 12.5, "" gives null and "abc" gives null.
\<close>

theorem parse_number_spec:
  "parse_number v = Inr (spec_parse_number v)
   \<and> (strip x = [] \<longrightarrow> parse_number (Some x) = Inr None)
   \<and> (\<forall>q. parse_number v = Inr (Some (PyFloat (Finite q))) \<longrightarrow> frac q \<noteq> 0)
   \<and> parse_number (Some ([8722] @ ascii ''5,0'' @ [176] @ ascii ''C'')) = Inr (Some (PyInt (- 5)))
   \<and> parse_number (Some (ascii ''12.5'')) = Inr (Some (PyFloat (Finite (25 / 2))))
   \<and> parse_number (Some []) = Inr None
   \<and> parse_number None = Inr None
   \<and> parse_number (Some (ascii ''abc'')) = Inr None"
proof -
  have blank: "strip x = [] \<longrightarrow> parse_number (Some x) = Inr None"
    by (simp add: parse_number_def)
  have whole: "\<forall>q. parse_number v = Inr (Some (PyFloat (Finite q))) \<longrightarrow> frac q \<noteq> 0"
    using spec_parse_number_fraction [of v] by (simp add: parse_number_refines)
  have empty: "parse_number (Some []) = Inr None" "parse_number None = Inr None"
    by (simp_all add: parse_number_def)
  from parse_number_refines [of v] blank whole parse_number_minus_five
    parse_number_twelve_and_a_half empty parse_number_abc
  show ?thesis by blast
qed

theorem parse_number_spec_witness:
  "strip (ascii ''  '') = [] \<and> parse_number (Some (ascii ''  '')) = Inr None
   \<and> parse_number (Some (ascii ''3,50'')) = Inr (Some (PyFloat (Finite (7 / 2))))
   \<and> spec_parse_number (Some (ascii ''3,50'')) = Some (PyFloat (Finite (7 / 2)))
   \<and> frac (7 / 2 :: real) \<noteq> 0"
proof -
  have s: "strip (ascii ''  '') = []"
    by (simp add: strip_def isspace_def)
  have p: "parse_number (Some (ascii ''3,50'')) = Inr (Some (PyFloat (Finite (7 / 2))))"
    by (simp add: number_eval)
  from parse_number_spec [of "Some (ascii ''3,50'')" "ascii ''  ''"] s p
  show ?thesis by simp
qed

text \<open>
  C4, as the specification states it, fails: "1e5" has the letter e, which is neither C
  nor c, and \<open>parse_number\<close> returns the integer 100000; "inf" and "nan" give an
  infinity and a NaN.
\<close>

theorem parse_number_letter_counterexample:
  "101 \<in> set (ascii ''1e5'') \<and> ascii_letter 101 \<and> (101::nat) \<noteq> 67 \<and> (101::nat) \<noteq> 99
   \<and> parse_number (Some (ascii ''1e5'')) = Inr (Some (PyInt 100000))
   \<and> parse_number (Some (ascii ''1e5'')) \<noteq> Inr None
   \<and> parse_number (Some (ascii ''inf'')) = Inr (Some (PyFloat (Infinite False)))
   \<and> parse_number (Some (ascii ''nan'')) = Inr (Some (PyFloat NaN))"
  using parse_number_exponent parse_number_inf parse_number_nan
  by (simp add: ascii_letter_def)

text \<open>
  C4, amended. A string with a letter that no text accepted by \<open>float\<close> can hold gives
  null: an ASCII letter other than C, c, the exponent mark E, e and the letters of "inf",
  "infinity" and "nan" (A, F, I, N, T, Y in either case); and any code point from U+0080
  on that is neither white space nor a decimal digit nor the degree sign nor the minus sign
  U+2212, which covers every letter outside ASCII. And \<open>parse_number\<close> raises on no
  value at all.
\<close>

theorem parse_number_rejects_letters:
  "((\<exists>c \<in> set s. ascii_letter c \<and> c \<notin> set (ascii ''CcEeAaFfIiNnTtYy''))
      \<longrightarrow> parse_number (Some s) = Inr None)
   \<and> ((\<exists>c \<in> set s. 128 \<le> c \<and> \<not> isspace c \<and> decimal_digit c = None \<and> c \<noteq> 176 \<and> c \<noteq> 8722)
      \<longrightarrow> parse_number (Some s) = Inr None)
   \<and> (\<exists>r. parse_number v = Inr r)"
proof -
  have ascii_case: "(\<exists>c \<in> set s. ascii_letter c \<and> c \<notin> set (ascii ''CcEeAaFfIiNnTtYy''))
      \<longrightarrow> parse_number (Some s) = Inr None"
  proof
    assume "\<exists>c \<in> set s. ascii_letter c \<and> c \<notin> set (ascii ''CcEeAaFfIiNnTtYy'')"
    then obtain c where c: "c \<in> set s" "ascii_letter c"
      "c \<notin> set (ascii ''CcEeAaFfIiNnTtYy'')" by blast
    from ascii_letter_bad [OF c(2) c(3)] c(1) show "parse_number (Some s) = Inr None"
      by (intro parse_number_reject [of c]) simp_all
  qed
  have other_case:
    "(\<exists>c \<in> set s. 128 \<le> c \<and> \<not> isspace c \<and> decimal_digit c = None \<and> c \<noteq> 176 \<and> c \<noteq> 8722)
      \<longrightarrow> parse_number (Some s) = Inr None"
  proof
    assume "\<exists>c \<in> set s. 128 \<le> c \<and> \<not> isspace c \<and> decimal_digit c = None \<and> c \<noteq> 176 \<and> c \<noteq> 8722"
    then obtain c where c: "c \<in> set s" "128 \<le> c" "\<not> isspace c" "decimal_digit c = None"
      "c \<noteq> 176" "c \<noteq> 8722" by blast
    from non_ascii_bad [OF c(2) c(3) c(4)] c show "parse_number (Some s) = Inr None"
      by (intro parse_number_reject [of c]) simp_all
  qed
  from ascii_case other_case parse_number_total [of v] show ?thesis by blast
qed

theorem parse_number_rejects_letters_witness:
  "parse_number (Some (ascii ''12x'')) = Inr None
   \<and> parse_number (Some (ascii ''5'' @ [233])) = Inr None
   \<and> (\<exists>r. parse_number (Some (ascii ''inf'')) = Inr r)"
proof -
  have a: "\<exists>c \<in> set (ascii ''12x''). ascii_letter c \<and> c \<notin> set (ascii ''CcEeAaFfIiNnTtYy'')"
    by (simp add: ascii_letter_def)
  have "decimal_digit 233 = None"
    by (simp add: decimal_digit_def decimal_blocks_def)
  then have b: "\<exists>c \<in> set (ascii ''5'' @ [233]).
      128 \<le> c \<and> \<not> isspace c \<and> decimal_digit c = None \<and> c \<noteq> 176 \<and> c \<noteq> 8722"
    by (simp add: isspace_def)
  from parse_number_rejects_letters [of "ascii ''12x''" "Some (ascii ''inf'')"] a
  have 1: "parse_number (Some (ascii ''12x'')) = Inr None
     \<and> (\<exists>r. parse_number (Some (ascii ''inf'')) = Inr r)" by blast
  from parse_number_rejects_letters [of "ascii ''5'' @ [233]" "Some (ascii ''inf'')"] b
  have 2: "parse_number (Some (ascii ''5'' @ [233])) = Inr None" by blast
  from 1 2 show ?thesis by blast
qed

section \<open>Facts about the loop body\<close>

lemma and_then_Inl [simp]: "and_then (Inl e) f = Inl e"
  by (simp add: and_then_def)

lemma and_then_Inr [simp]: "and_then (Inr x) f = f x"
  by (simp add: and_then_def)

lemma and_thenE:
  assumes "and_then m f = Inr y"
  obtains x where "m = Inr x" and "f x = Inr y"
  using assms by (cases m) simp_all

lemma skip_or_append_Some:
  "(if b then Inr None else Inr (Some x)) = Inr (Some p) \<longleftrightarrow> \<not> b \<and> p = x"
  by auto

lemma skip_or_append_None:
  "(if b then Inr None else Inr (Some x)) = Inr None \<longleftrightarrow> b"
  by auto

lemma process_row_Some:
  assumes "process_row n r = Inr (Some p)"
  shows "\<not> blank_row r \<and> p_active p = row_active r
    \<and> (\<exists>a b. t_new (p_temp_ranges p) = build_temp_range a b)
    \<and> (\<exists>a b. t_old (p_temp_ranges p) = build_temp_range a b)
    \<and> (\<exists>a b. t_wet (p_temp_ranges p) = build_temp_range a b)"
  using assms
  unfolding process_row_def Let_def
  apply (elim and_thenE)
  apply (simp only: skip_or_append_Some)
  apply (simp add: blank_row_def row_active_def)
  apply blast
  done

lemma process_row_None:
  assumes "process_row n r = Inr None"
  shows "blank_row r"
  using assms
  unfolding process_row_def Let_def
  apply (elim and_thenE)
  apply (simp only: skip_or_append_None)
  apply (simp add: blank_row_def)
  done

lemma and_then_InlE:
  assumes "and_then m f = Inl e"
  obtains "m = Inl e" | x where "m = Inr x" and "f x = Inl e"
  using assms by (cases m) simp_all

lemma strip_of_Inl: "strip_of v = Inl e \<Longrightarrow> e = AttributeError"
  by (auto simp: strip_of_def split: option.splits)

lemma parse_number_Inl: "parse_number v = Inl e \<Longrightarrow> False"
  using parse_number_total [of v] by auto

lemma priority_of_Inl: "priority_of v = Inl e \<Longrightarrow> e = ValueError \<or> e = OverflowError"
  by (auto simp: priority_of_def int_of_float_def
      split: option.splits number.splits pyfloat.splits)

lemma skip_or_append_Inl: "(if b then Inr None else Inr (Some x)) = Inl e \<Longrightarrow> False"
  by (simp split: if_splits)

lemma process_row_errors:
  assumes "process_row n r = Inl e"
  shows "e = AttributeError \<or> e = ValueError \<or> e = OverflowError"
  using assms
  unfolding process_row_def Let_def
  apply (elim and_then_InlE)
  apply (blast dest: strip_of_Inl parse_number_Inl priority_of_Inl skip_or_append_Inl)+
  done

lemmas row_eval =
  process_row_def get_def strip_of_def or_empty_def py_or_def segment_raw_def map_segment_def
  priority_of_def parse_bool_def build_temp_range_def make_id_def lower_eval number_eval
  dict_row_def example_header_def

lemma swix_row_record:
  "process_row n swix_row = Inr (Some
     \<lparr>p_id = ascii ''swix_vp30'', p_brand = ascii ''Swix'', p_line = [],
      p_code = ascii ''VP30'', p_product = ascii ''Swix VP30'', p_type = ascii ''hardwax'',
      p_segment = [],
      p_temp_ranges =
        \<lparr>t_new = Some \<lparr>range_min = Some (PyInt (- 5)), range_max = Some (PyInt (- 2))\<rparr>,
         t_old = None, t_wet = None\<rparr>,
      p_priority = 70, p_notes = [], p_imageFile = None, p_active = True\<rparr>)"
  by (simp add: swix_row_def row_eval)

lemma separator_row_skipped: "process_row n separator_row = Inr None"
  by (simp add: separator_row_def row_eval)

lemma rode_row_record:
  "process_row n rode_row = Inr (Some
     \<lparr>p_id = ascii ''rode'', p_brand = ascii ''Rode'', p_line = [],
      p_code = [], p_product = ascii ''Rode'', p_type = ascii ''hardwax'',
      p_segment = [],
      p_temp_ranges = \<lparr>t_new = None, t_old = None, t_wet = None\<rparr>,
      p_priority = 70, p_notes = [], p_imageFile = None, p_active = False\<rparr>)"
  by (simp add: rode_row_def row_eval)

lemma short_row_raises: "process_row n short_row = Inl AttributeError"
  by (simp add: short_row_def row_eval)

lemma inf_row_raises: "process_row n inf_row = Inl OverflowError"
  by (simp add: inf_row_def row_eval)

section \<open>Facts about the loop and the driver\<close>

lemma process_rows_records:
  assumes "process_rows acc rows = Inr ps"
  shows "\<exists>qs. ps = acc @ qs \<and> list_all2 record_of qs (filter (\<lambda>r. \<not> blank_row r) rows)"
  using assms
proof (induction rows arbitrary: acc)
  case Nil
  then show ?case by simp
next
  case (Cons r rows)
  show ?case
  proof (cases "process_row (length acc) r")
    case (Inl e)
    with Cons.prems show ?thesis by simp
  next
    case (Inr res)
    show ?thesis
    proof (cases res)
      case None
      with Inr have row: "process_row (length acc) r = Inr None" by simp
      with Cons.prems have "process_rows acc rows = Inr ps" by simp
      from Cons.IH [OF this] obtain qs where
        "ps = acc @ qs" "list_all2 record_of qs (filter (\<lambda>r. \<not> blank_row r) rows)"
        by blast
      moreover from row have "blank_row r" by (rule process_row_None)
      ultimately show ?thesis by auto
    next
      case (Some p)
      with Inr have row: "process_row (length acc) r = Inr (Some p)" by simp
      with Cons.prems have "process_rows (acc @ [p]) rows = Inr ps" by simp
      from Cons.IH [OF this] obtain qs where
        qs: "ps = (acc @ [p]) @ qs" "list_all2 record_of qs (filter (\<lambda>r. \<not> blank_row r) rows)"
        by blast
      from row have "record_of p r" by (auto simp: record_of_def)
      moreover from process_row_Some [OF row] have "\<not> blank_row r" by simp
      ultimately have "ps = acc @ (p # qs)
        \<and> list_all2 record_of (p # qs) (filter (\<lambda>r. \<not> blank_row r) (r # rows))"
        using qs by simp
      then show ?thesis by blast
    qed
  qed
qed

lemma list_all2_filter:
  assumes "list_all2 R xs ys" and "\<And>x y. R x y \<Longrightarrow> P x = Q y"
  shows "list_all2 R (filter P xs) (filter Q ys)"
  using assms by (induction rule: list_all2_induct) auto

lemma record_of_active: "record_of p r \<Longrightarrow> p_active p = row_active r"
  using process_row_Some by (auto simp: record_of_def)

lemma three_way_count:
  "length rows = length (filter B rows) + length (filter (\<lambda>r. \<not> B r \<and> A r) rows)
     + length (filter (\<lambda>r. \<not> B r \<and> \<not> A r) rows)"
  by (induction rows) auto

lemma process_rows_errors:
  assumes "process_rows acc rows = Inl e"
  shows "e = AttributeError \<or> e = ValueError \<or> e = OverflowError"
  using assms
proof (induction rows arbitrary: acc)
  case Nil
  then show ?case by simp
next
  case (Cons r rows)
  show ?case
  proof (cases "process_row (length acc) r")
    case (Inl e')
    with Cons.prems have "e' = e" by simp
    with Inl process_row_errors show ?thesis by blast
  next
    case (Inr res)
    with Cons.prems Cons.IH show ?thesis
      by (cases res) auto
  qed
qed

lemma main_written:
  assumes "main fs = (res, fs')" and "res = Inr n \<or> res = Inl UnicodeEncodeError"
  shows "\<exists>rows all_products.
     csv_path fs = Table rows \<and> process_rows [] rows = Inr all_products
     \<and> (res = Inr n \<longrightarrow> n = length (filter p_active all_products))
     \<and> fs' = fs\<lparr>out_json_path := Complete
          \<lparr>version = ascii ''2.0'',
           scope = ascii ''Classic grip '' @ [8211] @ ascii '' new/old/wet'',
           products = filter p_active all_products\<rparr>\<rparr>"
proof -
  have rows: "process_rows [] rows \<noteq> Inl UnicodeEncodeError" for rows
    using process_rows_errors [of "[]" rows UnicodeEncodeError] by auto
  from assms rows show ?thesis
    by (auto simp: main_def Let_def
        split: csv_file.splits sum.splits out_device.splits if_splits)
qed

lemma main_before_write:
  assumes "main fs = (Inl e, fs')" and "e \<noteq> OSError" and "e \<noteq> UnicodeEncodeError"
  shows "fs' = fs"
  using assms
  by (auto simp: main_def Let_def
      split: csv_file.splits sum.splits out_device.splits if_splits)

lemma main_OSError:
  assumes "main fs = (Inl OSError, fs')"
  shows "(out_device fs = Refuses \<and> fs' = fs)
    \<or> (out_device fs = Fails \<and> fs' = fs\<lparr>out_json_path := Partial\<rparr>)"
proof -
  have rows: "process_rows [] rows \<noteq> Inl OSError" for rows
    using process_rows_errors [of "[]" rows OSError] by auto
  from assms rows show ?thesis
    by (auto simp: main_def Let_def
        split: csv_file.splits sum.splits out_device.splits if_splits)
qed

lemmas example_rows = swix_row_record separator_row_skipped rode_row_record

lemma example_run:
  "main example_files = (Inr 1, example_files\<lparr>out_json_path := Complete example_document\<rparr>)"
  by (simp add: main_def example_files_def example_rows example_document_def)

lemma example_run_mute:
  "main (example_files\<lparr>stdout_encodes := False\<rparr>)
     = (Inl UnicodeEncodeError,
        example_files\<lparr>stdout_encodes := False, out_json_path := Complete example_document\<rparr>)"
  by (simp add: main_def example_files_def example_rows example_document_def)

lemma example_run_fails:
  "main (example_files\<lparr>out_device := Fails\<rparr>)
     = (Inl OSError, example_files\<lparr>out_device := Fails, out_json_path := Partial\<rparr>)"
  by (simp add: main_def example_files_def example_rows)

lemma example_run_refuses:
  "main (example_files\<lparr>out_device := Refuses\<rparr>)
     = (Inl OSError, example_files\<lparr>out_device := Refuses\<rparr>)"
  by (simp add: main_def example_files_def example_rows)

lemma example_rows_blank:
  "\<not> blank_row swix_row" "blank_row separator_row" "\<not> blank_row rode_row"
  by (simp_all add: blank_row_def swix_row_def separator_row_def rode_row_def get_def
      strip_of_def strip_def isspace_def dict_row_def example_header_def)

lemma example_rows_active:
  "row_active swix_row" "\<not> row_active rode_row"
  by (simp_all add: row_active_def swix_row_def rode_row_def get_def parse_bool_def
      strip_def isspace_def lower_eval dict_row_def example_header_def)

section \<open>The number and the order of the records\<close>

text \<open>
  C2. A row whose brand, code and product name are all empty after trimming produces no
  record. When the run over a table of N rows writes its document (it ends without an
  error, or with the error of the last message, which is printed once the document is
  written), K of the rows being blank in this sense and M of the others having an
  \<open>active\<close> value that parses to false, the document has exactly N - K - M records, and
  they are the records of the rows that are neither blank nor inactive, in the order of
  these rows.
\<close>

theorem record_count_and_order:
  assumes "csv_path fs = Table rows" and "main fs = (res, fs')"
    and "res = Inr n \<or> res = Inl UnicodeEncodeError"
  shows "(\<forall>r k p. blank_row r \<longrightarrow> process_row k r \<noteq> Inr (Some p))
    \<and> (\<exists>doc. out_json_path fs' = Complete doc
         \<and> length (products doc) =
             length rows - length (filter blank_row rows)
               - length (filter (\<lambda>r. \<not> blank_row r \<and> \<not> row_active r) rows)
         \<and> list_all2 record_of (products doc)
             (filter (\<lambda>r. \<not> blank_row r \<and> row_active r) rows))"
proof -
  have skip: "\<forall>r k p. blank_row r \<longrightarrow> process_row k r \<noteq> Inr (Some p)"
    using process_row_Some by blast
  from main_written [OF assms(2,3)] assms(1) obtain all_products where
    loop: "process_rows [] rows = Inr all_products"
    and out: "out_json_path fs' = Complete
          \<lparr>version = ascii ''2.0'',
           scope = ascii ''Classic grip '' @ [8211] @ ascii '' new/old/wet'',
           products = filter p_active all_products\<rparr>"
    by auto
  from process_rows_records [OF loop]
  have all: "list_all2 record_of all_products (filter (\<lambda>r. \<not> blank_row r) rows)"
    by simp
  have "list_all2 record_of (filter p_active all_products)
          (filter row_active (filter (\<lambda>r. \<not> blank_row r) rows))"
    using all record_of_active by (rule list_all2_filter)
  then have order: "list_all2 record_of (filter p_active all_products)
          (filter (\<lambda>r. \<not> blank_row r \<and> row_active r) rows)"
    by (simp add: conj_commute)
  then have "length (filter p_active all_products)
      = length (filter (\<lambda>r. \<not> blank_row r \<and> row_active r) rows)"
    by (rule list_all2_lengthD)
  with three_way_count [of rows blank_row row_active]
  have count: "length (filter p_active all_products) =
      length rows - length (filter blank_row rows)
        - length (filter (\<lambda>r. \<not> blank_row r \<and> \<not> row_active r) rows)"
    by arith
  from skip out order count show ?thesis by simp
qed

theorem record_count_and_order_witness:
  "length (filter blank_row [swix_row, separator_row, rode_row]) = 1
   \<and> length (filter (\<lambda>r. \<not> blank_row r \<and> \<not> row_active r) [swix_row, separator_row, rode_row]) = 1
   \<and> (\<exists>doc. out_json_path (snd (main example_files)) = Complete doc
        \<and> length (products doc) = 3 - 1 - 1
        \<and> list_all2 record_of (products doc) [swix_row])
   \<and> (\<exists>doc. out_json_path (snd (main (example_files\<lparr>stdout_encodes := False\<rparr>)))
          = Complete doc
        \<and> length (products doc) = 3 - 1 - 1
        \<and> list_all2 record_of (products doc) [swix_row])"
proof -
  have csv: "csv_path example_files = Table [swix_row, separator_row, rode_row]"
    by (simp add: example_files_def)
  have csv_mute: "csv_path (example_files\<lparr>stdout_encodes := False\<rparr>)
      = Table [swix_row, separator_row, rode_row]"
    by (simp add: example_files_def)
  from record_count_and_order [OF csv example_run, of 1]
  have 1: "length (filter blank_row [swix_row, separator_row, rode_row]) = 1
   \<and> length (filter (\<lambda>r. \<not> blank_row r \<and> \<not> row_active r) [swix_row, separator_row, rode_row]) = 1
   \<and> (\<exists>doc. out_json_path (snd (main example_files)) = Complete doc
        \<and> length (products doc) = 3 - 1 - 1
        \<and> list_all2 record_of (products doc) [swix_row])"
    by (simp add: example_run example_rows_blank example_rows_active)
  from record_count_and_order [OF csv_mute example_run_mute, of 1]
  have 2: "\<exists>doc. out_json_path (snd (main (example_files\<lparr>stdout_encodes := False\<rparr>)))
          = Complete doc
        \<and> length (products doc) = 3 - 1 - 1
        \<and> list_all2 record_of (products doc) [swix_row]"
    by (simp add: example_run_mute example_rows_blank example_rows_active)
  from 1 2 show ?thesis by blast
qed

lemma process_rows_all:
  assumes "process_rows acc rows = Inr ps"
    and "\<forall>p \<in> set acc. Q p"
    and "\<And>k r p. process_row k r = Inr (Some p) \<Longrightarrow> Q p"
  shows "\<forall>p \<in> set ps. Q p"
  using assms(1,2)
proof (induction rows arbitrary: acc)
  case Nil
  then show ?case by simp
next
  case (Cons r rows)
  show ?case
  proof (cases "process_row (length acc) r")
    case (Inl e)
    with Cons.prems show ?thesis by simp
  next
    case (Inr res)
    show ?thesis
    proof (cases res)
      case None
      with Inr Cons.prems have "process_rows acc rows = Inr ps" by simp
      from Cons.IH [OF this Cons.prems(2)] show ?thesis .
    next
      case (Some p)
      with Inr have row: "process_row (length acc) r = Inr (Some p)" by simp
      with Cons.prems have loop: "process_rows (acc @ [p]) rows = Inr ps" by simp
      from assms(3) [OF row] Cons.prems(2) have "\<forall>q \<in> set (acc @ [p]). Q q" by simp
      from Cons.IH [OF loop this] show ?thesis .
    qed
  qed
qed

lemma build_temp_range_ok: "range_ok (build_temp_range a b)"
  by (auto simp: range_ok_def build_temp_range_def)

lemma process_row_ranges_ok:
  assumes "process_row k r = Inr (Some p)"
  shows "range_ok (t_new (p_temp_ranges p)) \<and> range_ok (t_old (p_temp_ranges p))
    \<and> range_ok (t_wet (p_temp_ranges p))"
  using process_row_Some [OF assms] build_temp_range_ok by auto

section \<open>The invariant of temperature ranges\<close>

text \<open>
  C8. \<open>build_temp_range\<close> returns null if and only if both bounds are null, and
  otherwise the range of the two bounds as they are, either of which may be null. So in
  every record of a written document (the run ends without an error, or with the error
  of the last message), each of the ranges new, old and wet is null or has a bound that
  is not null.
\<close>

theorem temp_range_invariant:
  "(build_temp_range a b = None \<longleftrightarrow> a = None \<and> b = None)
   \<and> (\<not> (a = None \<and> b = None)
        \<longrightarrow> build_temp_range a b = Some \<lparr>range_min = a, range_max = b\<rparr>)
   \<and> (main fs = (res, fs') \<and> (res = Inr n \<or> res = Inl UnicodeEncodeError) \<longrightarrow>
        (\<exists>doc. out_json_path fs' = Complete doc
           \<and> (\<forall>p \<in> set (products doc).
                 range_ok (t_new (p_temp_ranges p)) \<and> range_ok (t_old (p_temp_ranges p))
                 \<and> range_ok (t_wet (p_temp_ranges p)))))"
proof -
  have written: "main fs = (res, fs') \<and> (res = Inr n \<or> res = Inl UnicodeEncodeError) \<longrightarrow>
        (\<exists>doc. out_json_path fs' = Complete doc
           \<and> (\<forall>p \<in> set (products doc).
                 range_ok (t_new (p_temp_ranges p)) \<and> range_ok (t_old (p_temp_ranges p))
                 \<and> range_ok (t_wet (p_temp_ranges p))))"
  proof
    assume "main fs = (res, fs') \<and> (res = Inr n \<or> res = Inl UnicodeEncodeError)"
    then have run: "main fs = (res, fs')"
      and res: "res = Inr n \<or> res = Inl UnicodeEncodeError"
      by simp_all
    from main_written [OF run res] obtain rows all_products where
      loop: "process_rows [] rows = Inr all_products"
      and out: "out_json_path fs' = Complete
          \<lparr>version = ascii ''2.0'',
           scope = ascii ''Classic grip '' @ [8211] @ ascii '' new/old/wet'',
           products = filter p_active all_products\<rparr>"
      by auto
    have "\<forall>p \<in> set all_products.
        range_ok (t_new (p_temp_ranges p)) \<and> range_ok (t_old (p_temp_ranges p))
        \<and> range_ok (t_wet (p_temp_ranges p))"
      by (rule process_rows_all [OF loop]) (simp, rule process_row_ranges_ok)
    with out show "\<exists>doc. out_json_path fs' = Complete doc
           \<and> (\<forall>p \<in> set (products doc).
                 range_ok (t_new (p_temp_ranges p)) \<and> range_ok (t_old (p_temp_ranges p))
                 \<and> range_ok (t_wet (p_temp_ranges p)))"
      by simp
  qed
  have "build_temp_range a b = None \<longleftrightarrow> a = None \<and> b = None"
    by (rule build_temp_range_None)
  moreover have "\<not> (a = None \<and> b = None)
        \<longrightarrow> build_temp_range a b = Some \<lparr>range_min = a, range_max = b\<rparr>"
    by (simp add: build_temp_range_def)
  ultimately show ?thesis using written by blast
qed

theorem temp_range_invariant_witness:
  "build_temp_range (Some (PyInt (- 5))) None
     = Some \<lparr>range_min = Some (PyInt (- 5)), range_max = None\<rparr>
   \<and> build_temp_range None None = None
   \<and> (\<exists>doc. out_json_path (snd (main example_files)) = Complete doc
        \<and> (\<forall>p \<in> set (products doc).
              range_ok (t_new (p_temp_ranges p)) \<and> range_ok (t_old (p_temp_ranges p))
              \<and> range_ok (t_wet (p_temp_ranges p))))"
proof -
  from temp_range_invariant [where a = "Some (PyInt (- 5))" and b = None
      and fs = example_files and res = "Inr 1" and n = 1
      and fs' = "snd (main example_files)"]
  have 1: "build_temp_range (Some (PyInt (- 5))) None
     = Some \<lparr>range_min = Some (PyInt (- 5)), range_max = None\<rparr>"
    and 2: "\<exists>doc. out_json_path (snd (main example_files)) = Complete doc
        \<and> (\<forall>p \<in> set (products doc).
              range_ok (t_new (p_temp_ranges p)) \<and> range_ok (t_old (p_temp_ranges p))
              \<and> range_ok (t_wet (p_temp_ranges p)))"
    by (simp_all add: example_run)
  have 3: "build_temp_range None None = None"
    by (simp add: build_temp_range_def)
  from 1 2 3 show ?thesis by blast
qed

section \<open>Fatal errors and the output file\<close>

text \<open>
  C5, as the specification states it, fails in both of its parts. The input file exists
  and the run still ends with a fatal error: a file that the sniffer cannot read (an
  empty file) ends it before any row is read. And a fatal error does not mean that
  nothing is written: over the example table, on a console that cannot encode the check
  mark of the last message, the run writes the complete document and then ends with
  \<open>UnicodeEncodeError\<close>; and when the device fails during the write, the output path is
  left with an incomplete file.
\<close>

theorem fatal_error_after_write_counterexample:
  "csv_path (example_files\<lparr>stdout_encodes := False\<rparr>) \<noteq> Missing
   \<and> fst (main (example_files\<lparr>stdout_encodes := False\<rparr>)) = Inl UnicodeEncodeError
   \<and> out_json_path (snd (main (example_files\<lparr>stdout_encodes := False\<rparr>)))
       = Complete example_document
   \<and> out_json_path (example_files\<lparr>stdout_encodes := False\<rparr>) = NoFile
   \<and> main (example_files\<lparr>csv_path := Unreadable\<rparr>)
       = (Inl ReadError, example_files\<lparr>csv_path := Unreadable\<rparr>)
   \<and> main (example_files\<lparr>out_device := Fails\<rparr>)
       = (Inl OSError, example_files\<lparr>out_device := Fails, out_json_path := Partial\<rparr>)"
  by (simp add: example_run_mute example_run_fails) (simp add: main_def example_files_def)

text \<open>
  C5, amended. When the input file does not exist the run ends with
  \<open>FileNotFoundError\<close> and the files are as before. An error raised before the output
  file is opened (any error but \<open>OSError\<close> and \<open>UnicodeEncodeError\<close>: the missing file, a
  file that cannot be read, a row that raises) leaves the files as before. \<open>OSError\<close>
  comes from the output file: either it could not be opened and the files are as before,
  or the write failed and the output path holds an incomplete file. A run that ends
  without an error, or with \<open>UnicodeEncodeError\<close>, has read the whole table, no row has
  raised, and the output path holds the complete document: version, scope and every
  active record of the table.
\<close>

theorem fatal_errors_and_output:
  "(csv_path fs = Missing \<longrightarrow> main fs = (Inl FileNotFoundError, fs))
   \<and> (\<forall>e. fst (main fs) = Inl e \<and> e \<noteq> OSError \<and> e \<noteq> UnicodeEncodeError
        \<longrightarrow> snd (main fs) = fs)
   \<and> (fst (main fs) = Inl OSError \<longrightarrow>
        (out_device fs = Refuses \<and> snd (main fs) = fs)
        \<or> (out_device fs = Fails \<and> snd (main fs) = fs\<lparr>out_json_path := Partial\<rparr>))
   \<and> (fst (main fs) = Inl UnicodeEncodeError \<or> (\<exists>n. fst (main fs) = Inr n) \<longrightarrow>
        (\<exists>rows all_products.
           csv_path fs = Table rows \<and> process_rows [] rows = Inr all_products
           \<and> snd (main fs) = fs\<lparr>out_json_path := Complete
                \<lparr>version = ascii ''2.0'',
                 scope = ascii ''Classic grip '' @ [8211] @ ascii '' new/old/wet'',
                 products = filter p_active all_products\<rparr>\<rparr>))"
proof -
  have run: "main fs = (fst (main fs), snd (main fs))"
    by simp
  have missing: "csv_path fs = Missing \<longrightarrow> main fs = (Inl FileNotFoundError, fs)"
    by (simp add: main_def)
  have early: "\<forall>e. fst (main fs) = Inl e \<and> e \<noteq> OSError \<and> e \<noteq> UnicodeEncodeError
        \<longrightarrow> snd (main fs) = fs"
  proof (intro allI impI)
    fix e
    assume e: "fst (main fs) = Inl e \<and> e \<noteq> OSError \<and> e \<noteq> UnicodeEncodeError"
    with run have "main fs = (Inl e, snd (main fs))" by simp
    with e show "snd (main fs) = fs" by (blast intro: main_before_write)
  qed
  have device: "fst (main fs) = Inl OSError \<longrightarrow>
        (out_device fs = Refuses \<and> snd (main fs) = fs)
        \<or> (out_device fs = Fails \<and> snd (main fs) = fs\<lparr>out_json_path := Partial\<rparr>)"
  proof
    assume "fst (main fs) = Inl OSError"
    with run have "main fs = (Inl OSError, snd (main fs))" by simp
    then show "(out_device fs = Refuses \<and> snd (main fs) = fs)
        \<or> (out_device fs = Fails \<and> snd (main fs) = fs\<lparr>out_json_path := Partial\<rparr>)"
      by (rule main_OSError)
  qed
  have written: "fst (main fs) = Inl UnicodeEncodeError \<or> (\<exists>n. fst (main fs) = Inr n) \<longrightarrow>
        (\<exists>rows all_products.
           csv_path fs = Table rows \<and> process_rows [] rows = Inr all_products
           \<and> snd (main fs) = fs\<lparr>out_json_path := Complete
                \<lparr>version = ascii ''2.0'',
                 scope = ascii ''Classic grip '' @ [8211] @ ascii '' new/old/wet'',
                 products = filter p_active all_products\<rparr>\<rparr>)"
  proof
    assume "fst (main fs) = Inl UnicodeEncodeError \<or> (\<exists>n. fst (main fs) = Inr n)"
    then obtain n where "fst (main fs) = Inr n \<or> fst (main fs) = Inl UnicodeEncodeError"
      by blast
    from main_written [OF run this] show "\<exists>rows all_products.
           csv_path fs = Table rows \<and> process_rows [] rows = Inr all_products
           \<and> snd (main fs) = fs\<lparr>out_json_path := Complete
                \<lparr>version = ascii ''2.0'',
                 scope = ascii ''Classic grip '' @ [8211] @ ascii '' new/old/wet'',
                 products = filter p_active all_products\<rparr>\<rparr>"
      by blast
  qed
  from missing early device written show ?thesis by blast
qed

theorem fatal_errors_and_output_witness:
  "main (example_files\<lparr>csv_path := Missing\<rparr>)
     = (Inl FileNotFoundError, example_files\<lparr>csv_path := Missing\<rparr>)
   \<and> snd (main (example_files\<lparr>csv_path := Unreadable\<rparr>))
       = example_files\<lparr>csv_path := Unreadable\<rparr>
   \<and> snd (main (example_files\<lparr>out_device := Fails\<rparr>))
       = example_files\<lparr>out_device := Fails, out_json_path := Partial\<rparr>
   \<and> snd (main (example_files\<lparr>out_device := Refuses\<rparr>))
       = example_files\<lparr>out_device := Refuses\<rparr>
   \<and> (\<exists>rows all_products.
         csv_path (example_files\<lparr>stdout_encodes := False\<rparr>) = Table rows
         \<and> process_rows [] rows = Inr all_products
         \<and> snd (main (example_files\<lparr>stdout_encodes := False\<rparr>))
             = example_files\<lparr>stdout_encodes := False, out_json_path := Complete
                \<lparr>version = ascii ''2.0'',
                 scope = ascii ''Classic grip '' @ [8211] @ ascii '' new/old/wet'',
                 products = filter p_active all_products\<rparr>\<rparr>)
   \<and> (\<exists>rows all_products.
         csv_path example_files = Table rows \<and> process_rows [] rows = Inr all_products
         \<and> snd (main example_files) = example_files\<lparr>out_json_path := Complete
              \<lparr>version = ascii ''2.0'',
               scope = ascii ''Classic grip '' @ [8211] @ ascii '' new/old/wet'',
               products = filter p_active all_products\<rparr>\<rparr>)"
proof -
  let ?missing = "example_files\<lparr>csv_path := Missing\<rparr>"
  let ?unreadable = "example_files\<lparr>csv_path := Unreadable\<rparr>"
  let ?fails = "example_files\<lparr>out_device := Fails\<rparr>"
  let ?refuses = "example_files\<lparr>out_device := Refuses\<rparr>"
  let ?mute = "example_files\<lparr>stdout_encodes := False\<rparr>"
  from fatal_errors_and_output [of ?missing]
  have 1: "main ?missing = (Inl FileNotFoundError, ?missing)" by simp
  have "fst (main ?unreadable) = Inl ReadError" by (simp add: main_def)
  with fatal_errors_and_output [of ?unreadable]
  have 2: "snd (main ?unreadable) = ?unreadable" by blast
  have "fst (main ?fails) = Inl OSError"
    by (simp add: example_run_fails)
  with fatal_errors_and_output [of ?fails]
  have 3: "snd (main ?fails) = ?fails\<lparr>out_json_path := Partial\<rparr>"
    by (simp add: example_files_def)
  have "fst (main ?refuses) = Inl OSError"
    by (simp add: example_run_refuses)
  with fatal_errors_and_output [of ?refuses]
  have 4: "snd (main ?refuses) = ?refuses"
    by (simp add: example_files_def)
  have "fst (main ?mute) = Inl UnicodeEncodeError" by (simp add: example_run_mute)
  with fatal_errors_and_output [of ?mute]
  have 5: "\<exists>rows all_products.
         csv_path ?mute = Table rows \<and> process_rows [] rows = Inr all_products
         \<and> snd (main ?mute) = ?mute\<lparr>out_json_path := Complete
                \<lparr>version = ascii ''2.0'',
                 scope = ascii ''Classic grip '' @ [8211] @ ascii '' new/old/wet'',
                 products = filter p_active all_products\<rparr>\<rparr>" by blast
  have "fst (main example_files) = Inr 1" by (simp add: example_run)
  with fatal_errors_and_output [of example_files]
  have 6: "\<exists>rows all_products.
         csv_path example_files = Table rows \<and> process_rows [] rows = Inr all_products
         \<and> snd (main example_files) = example_files\<lparr>out_json_path := Complete
              \<lparr>version = ascii ''2.0'',
               scope = ascii ''Classic grip '' @ [8211] @ ascii '' new/old/wet'',
               products = filter p_active all_products\<rparr>\<rparr>" by blast
  from 1 2 3 4 5 6 show ?thesis by simp
qed

section \<open>Rows that raise\<close>

text \<open>
  C1 does not hold of the code. A line with fewer cells than the header gives a row in
  which the missing columns are \<open>None\<close>, and \<open>.strip()\<close> on the \<open>code\<close> column raises
  \<open>AttributeError\<close>; a priority "inf" parses to an infinity, and \<open>int\<close> of it raises
  \<open>OverflowError\<close>. The run over a table with such a row ends with that exception.
\<close>

theorem row_processing_raises:
  "short_row (ascii ''code'') = Some None
   \<and> process_row 0 short_row = Inl AttributeError
   \<and> inf_row (ascii ''priority'') = Some (Some (ascii ''inf''))
   \<and> process_row 0 inf_row = Inl OverflowError
   \<and> fst (main (example_files\<lparr>csv_path := Table [inf_row]\<rparr>)) = Inl OverflowError
   \<and> fst (main (example_files\<lparr>csv_path := Table [swix_row, short_row]\<rparr>))
       = Inl AttributeError"
  by (simp add: short_row_raises inf_row_raises swix_row_record main_def)
    (simp add: short_row_def inf_row_def dict_row_def example_header_def)

end
